theory Spec2Isabelle
  imports Complex_Main "HOL-Library.AList" "HOL-Library.Log_Nat"
begin

section \<open>JavaScript numbers\<close>

text \<open>
  A JavaScript \<^verbatim>\<open>number\<close> is an IEEE-754 binary64 value. A finite one is a
  rational, so the model is \<^typ>\<open>rat\<close>, and every arithmetic operation of the
  source rounds its exact result to the nearest value with a 53-bit significand, ties
  to even (\<open>fl\<close>). The exponent range is left unbounded: overflow to Infinity,
  subnormals and NaN are not modelled (no value of the signal parser comes near them
  for vote counts below \<open>2^1023\<close>).
\<close>

definition pow2 :: "int \<Rightarrow> rat" where
  "pow2 k = (if 0 \<le> k then 2 ^ nat k else 1 / 2 ^ nat (- k))"

text \<open>
  \<open>ilog2 x\<close> is the binary exponent of a positive \<open>x\<close>: \<open>2^e \<le> x < 2^(e+1)\<close>
  (lemma \<open>ilog2_bounds\<close>), found from the bit lengths of numerator and denominator.
\<close>

definition ilog2 :: "rat \<Rightarrow> int" where
  "ilog2 x =
     (let p = fst (quotient_of x); q = snd (quotient_of x);
          k = bitlen p - bitlen q
      in if pow2 k \<le> x then k else k - 1)"

definition round_half_even :: "rat \<Rightarrow> int" where
  "round_half_even m =
     (let f = \<lfloor>m\<rfloor>; d = m - of_int f
      in if d < 1 / 2 then f
         else if 1 / 2 < d then f + 1
         else if even f then f else f + 1)"

definition fl :: "rat \<Rightarrow> rat" where
  "fl x =
     (if x = 0 then 0
      else let a = \<bar>x\<bar>; u = pow2 (ilog2 a - 52)
           in sgn x * of_int (round_half_even (a / u)) * u)"

definition jsadd :: "rat \<Rightarrow> rat \<Rightarrow> rat" where "jsadd a b = fl (a + b)"
definition jssub :: "rat \<Rightarrow> rat \<Rightarrow> rat" where "jssub a b = fl (a - b)"
definition jsmul :: "rat \<Rightarrow> rat \<Rightarrow> rat" where "jsmul a b = fl (a * b)"
definition jsdiv :: "rat \<Rightarrow> rat \<Rightarrow> rat" where "jsdiv a b = fl (a / b)"

text \<open>A decimal literal of the source denotes the nearest binary64 value.\<close>

definition jslit :: "rat \<Rightarrow> rat" where "jslit r = fl r"

section \<open>Regular expressions of the signal parser\<close>

text \<open>
  The patterns of the parser use literals, character classes with greedy repetition,
  optional groups, alternation, \<^verbatim>\<open>\b\<close> and one capture group, all under the
  \<^verbatim>\<open>i\<close> flag. \<open>rmatch\<close> is a backtracking matcher: it returns every way the
  pattern matches at a position, in the priority order of the JavaScript engine, so the
  head of the list is the match the engine reports. Characters stand for code units
  below 256.
\<close>

datatype cclass = Alpha | Digit | Space | SpaceOr string

datatype regex =
    Eps
  | Lit string
  | Rep cclass nat "nat option"
  | WordB
  | Seq regex regex
  | Alt regex regex
  | Opt regex
  | Cap regex

definition code :: "char \<Rightarrow> nat" where
  "code c = of_char c"

definition isLower :: "char \<Rightarrow> bool" where
  "isLower c = (97 \<le> code c \<and> code c \<le> 122)"

definition isUpper :: "char \<Rightarrow> bool" where
  "isUpper c = (65 \<le> code c \<and> code c \<le> 90)"

definition isDigit :: "char \<Rightarrow> bool" where
  "isDigit c = (48 \<le> code c \<and> code c \<le> 57)"

definition isSpace :: "char \<Rightarrow> bool" where
  "isSpace c = (code c \<in> {9, 10, 11, 12, 13, 32, 160})"

definition isWord :: "char \<Rightarrow> bool" where
  "isWord c = (isLower c \<or> isUpper c \<or> isDigit c \<or> code c = 95)"

definition upperChar :: "char \<Rightarrow> char" where
  "upperChar c = (if isLower c then char_of (code c - 32) else c)"

definition toUpperCase :: "string \<Rightarrow> string" where
  "toUpperCase s = map upperChar s"

text \<open>The five low bits of a character code are between 1 and 26.\<close>

definition low5 :: "bool \<Rightarrow> bool \<Rightarrow> bool \<Rightarrow> bool \<Rightarrow> bool \<Rightarrow> bool" where
  "low5 b0 b1 b2 b3 b4 =
     ((b0 \<or> b1 \<or> b2 \<or> b3 \<or> b4) \<and> \<not> (b4 \<and> b3 \<and> (b2 \<or> (b1 \<and> b0))))"

fun inClass :: "cclass \<Rightarrow> char \<Rightarrow> bool" where
  "inClass Alpha c = (isLower c \<or> isUpper c)"
| "inClass Digit c = isDigit c"
| "inClass Space c = isSpace c"
| "inClass (SpaceOr cs) c = (isSpace c \<or> c \<in> set cs)"

fun litAt :: "string \<Rightarrow> string \<Rightarrow> bool" where
  "litAt [] t = True"
| "litAt (a # s) [] = False"
| "litAt (a # s) (b # t) = (upperChar a = upperChar b \<and> litAt s t)"

definition wordAt :: "string \<Rightarrow> nat \<Rightarrow> bool" where
  "wordAt text i = (i < length text \<and> isWord (text ! i))"

definition boundaryAt :: "string \<Rightarrow> nat \<Rightarrow> bool" where
  "boundaryAt text i = ((0 < i \<and> wordAt text (i - 1)) \<noteq> wordAt text i)"

type_synonym mstate = "nat \<times> string option"

fun rmatch :: "regex \<Rightarrow> string \<Rightarrow> mstate \<Rightarrow> mstate list" where
  "rmatch Eps text (i, c) = [(i, c)]"
| "rmatch (Lit s) text (i, c) =
     (if litAt s (drop i text) then [(i + length s, c)] else [])"
| "rmatch (Rep cl lo hi) text (i, c) =
     (let n = length (takeWhile (inClass cl) (drop i text));
          m = (case hi of None \<Rightarrow> n | Some h \<Rightarrow> min n h)
      in if m < lo then [] else map (\<lambda>k. (i + k, c)) (rev [lo ..< Suc m]))"
| "rmatch WordB text (i, c) = (if boundaryAt text i then [(i, c)] else [])"
| "rmatch (Seq r1 r2) text (i, c) = concat (map (rmatch r2 text) (rmatch r1 text (i, c)))"
| "rmatch (Alt r1 r2) text (i, c) = rmatch r1 text (i, c) @ rmatch r2 text (i, c)"
| "rmatch (Opt r) text (i, c) = rmatch r text (i, c) @ [(i, c)]"
| "rmatch (Cap r) text (i, c) =
     map (\<lambda>(j, _). (j, Some (take (j - i) (drop i text)))) (rmatch r text (i, c))"

text \<open>
  \<^verbatim>\<open>pattern.exec(text)\<close> from \<^verbatim>\<open>lastIndex = i\<close>: the leftmost start position
  \<open>\<ge> i\<close> with a match; the result is the end of the match (the new
  \<^verbatim>\<open>lastIndex\<close>) and the text of group 1.
\<close>

function exec :: "regex \<Rightarrow> string \<Rightarrow> nat \<Rightarrow> mstate option" where
  "exec r text i =
     (if length text < i then None
      else case rmatch r text (i, None) of
             m # _ \<Rightarrow> Some m
           | [] \<Rightarrow> exec r text (Suc i))"
  by pat_completeness auto
termination
  by (relation "measure (\<lambda>(r, text, i). Suc (length text) - i)") auto

declare exec.simps [simp del]

text \<open>
  The loop \<^verbatim>\<open>while ((match = pattern.exec(text)) !== null)\<close> of a global pattern,
  collecting \<^verbatim>\<open>match[1]\<close>. Every pattern of the file consumes at least two
  characters (lemma \<open>patterns_consume\<close>), so \<^verbatim>\<open>lastIndex\<close> always advances; the
  guard \<open>i < e\<close> is the loop's progress, never false for these patterns.
\<close>

function execAll :: "regex \<Rightarrow> string \<Rightarrow> nat \<Rightarrow> string option list" where
  "execAll r text i =
     (case exec r text i of
        None \<Rightarrow> []
      | Some (e, c) \<Rightarrow>
          (if i < e \<and> e \<le> length text then c # execAll r text e else [c]))"
  by pat_completeness auto
termination
  by (relation "measure (\<lambda>(r, text, i). Suc (length text) - i)") auto

declare execAll.simps [simp del]

fun seqs :: "regex list \<Rightarrow> regex" where
  "seqs [] = Eps"
| "seqs [r] = r"
| "seqs (r # rs) = Seq r (seqs rs)"

fun alts :: "regex list \<Rightarrow> regex" where
  "alts [] = Eps"
| "alts [r] = r"
| "alts (r # rs) = Alt r (alts rs)"

text \<open>\<^verbatim>\<open>\s+\<close>, \<^verbatim>\<open>\$?[a-z]{2,10}\<close> and \<^verbatim>\<open>\$[a-z]{2,10}\<close>.\<close>

definition sp :: regex where
  "sp = Rep Space 1 None"

definition tok :: regex where
  "tok = Seq (Opt (Lit ''$'')) (Rep Alpha 2 (Some 10))"

definition dtok :: regex where
  "dtok = Seq (Lit ''$'') (Rep Alpha 2 (Some 10))"

text \<open>
  \<open>intent v ws\<close> is \<^verbatim>\<open>\bv\s+(?:w1\s+)?...(\$?[a-z]{2,10})\b\<close>,
  \<open>sentiment ps\<close> is \<^verbatim>\<open>(\$[a-z]{2,10})\s+(?:p1|p2|...)\<close> and
  \<open>leading vs\<close> is \<^verbatim>\<open>(?:v1|v2|...)\s+(?:on\s+)?(\$[a-z]{2,10})\<close>.
\<close>

definition intent :: "string \<Rightarrow> string list \<Rightarrow> regex" where
  "intent v ws =
     seqs ([WordB, Lit v, sp] @ map (\<lambda>w. Opt (Seq (Lit w) sp)) ws @ [Cap tok, WordB])"

definition sentiment :: "regex list \<Rightarrow> regex" where
  "sentiment ps = seqs [Cap dtok, sp, alts ps]"

definition leading :: "string list \<Rightarrow> regex" where
  "leading vs = seqs [alts (map Lit vs), sp, Opt (Seq (Lit ''on'') sp), Cap dtok]"

definition BUY_PATTERNS :: "regex list" where
  "BUY_PATTERNS =
     [intent ''buy'' [],
      intent ''buying'' [],
      intent ''bought'' [],
      intent ''long'' [],
      intent ''longing'' [],
      intent ''bullish'' [''on''],
      intent ''accumulate'' [],
      intent ''accumulating'' [],
      intent ''load'' [''up'', ''on''],
      intent ''loading'' [],
      intent ''entry'' [''on''],
      intent ''ape'' [''into''],
      intent ''aping'' [''into''],
      intent ''aped'' [''into''],
      intent ''fomo'' [''into''],
      intent ''stack'' [''more''],
      intent ''stacking'' [],
      intent ''grab'' [''some''],
      intent ''scoop'' [''up''],
      intent ''scooping'' [],
      sentiment (map Lit [''to the moon'', ''moon'', ''pump'', ''pumping'', ''going up'',
        ''breaking out'', ''breakout'', ''ripping'', ''mooning'', ''sending'', ''flying'']),
      sentiment (map Lit [''looks good'', ''looking good'', ''bullish'', ''strong'', ''ready'',
        ''primed'', ''set to run'', ''about to run'']),
      leading [''bullish'', ''long'', ''buy'', ''grab'', ''load'', ''stack''],
      sentiment (Seq (Rep Digit 1 None) (Lit ''x'') #
        map Lit [''100x'', ''10x'', ''5x'', ''2x'', ''will pump'', ''gonna pump'',
          ''about to pump'']),
      sentiment (map Lit [''easy money'', ''free money'', ''alpha'', ''gem'', ''hidden gem'',
        ''undervalued''])]"

definition SELL_PATTERNS :: "regex list" where
  "SELL_PATTERNS =
     [intent ''sell'' [],
      intent ''selling'' [],
      intent ''sold'' [],
      intent ''short'' [],
      intent ''shorting'' [],
      intent ''bearish'' [''on''],
      intent ''exit'' [],
      intent ''exiting'' [],
      intent ''dump'' [],
      intent ''dumping'' [],
      seqs [WordB, Lit ''take'', sp, Lit ''profit'', sp, Opt (Seq (Lit ''on'') sp),
        Cap tok, WordB],
      intent ''tp'' [''on''],
      intent ''close'' [],
      intent ''closing'' [],
      intent ''fade'' [],
      intent ''fading'' [],
      sentiment (map Lit [''dump'', ''dumping'', ''crashing'', ''going down'', ''tanking'',
        ''dying'', ''dead'', ''rug'', ''rugging'']),
      sentiment (map Lit [''looks weak'', ''looking weak'', ''bearish'', ''overbought'',
        ''topped'', ''topping'']),
      leading [''bearish'', ''short'', ''sell'', ''dump'', ''fade'']]"

definition TOKEN_MENTION_PATTERN :: regex where
  "TOKEN_MENTION_PATTERN = seqs [Lit ''$'', Cap (Rep Alpha 2 (Some 10)), WordB]"

text \<open>The patterns of \<^verbatim>\<open>extractTpSl\<close> and \<^verbatim>\<open>extractAmount\<close>.\<close>

definition number :: regex where
  "number = seqs [Rep Digit 1 None, Opt (Lit ''.''), Rep Digit 0 None]"

definition TP_PATTERN :: regex where
  "TP_PATTERN =
     seqs [alts [Lit ''tp'', seqs [Lit ''take'', Rep Space 0 None, Lit ''profit''],
             Lit ''target'', Lit ''pt''],
           Rep (SpaceOr '':@='') 0 None, Opt (Lit ''$''), Cap number]"

definition SL_PATTERN :: regex where
  "SL_PATTERN =
     seqs [alts [Lit ''sl'', seqs [Lit ''stop'', Rep Space 0 None, Lit ''loss''],
             Lit ''stop'', Lit ''stoploss''],
           Rep (SpaceOr '':@='') 0 None, Opt (Lit ''$''), Cap number]"

definition AMOUNT_PATTERN :: regex where
  "AMOUNT_PATTERN =
     seqs [Cap (Seq (Opt (Lit ''$'')) number), Rep Space 0 None,
           alts [Lit ''usdt'', Lit ''usd'', Lit ''$'', Seq (Lit ''dollar'') (Opt (Lit ''s'')),
             Lit ''worth'']]"

text \<open>\<^verbatim>\<open>text.match(pattern)\<close> of a pattern without the global flag: group 1 of the first match.\<close>

definition matchFirst :: "regex \<Rightarrow> string \<Rightarrow> string option" where
  "matchFirst r text = (case exec r text 0 of None \<Rightarrow> None | Some (e, c) \<Rightarrow> c)"

section \<open>The signal parser\<close>

datatype action = Buy | Sell

record signal_source =
  postId :: string
  source_title :: string
  source_author :: string
  source_upvotes :: int

record TradingSignal =
  action :: action
  token :: string
  amount :: "string option"
  tp :: "string option"
  sl :: "string option"
  confidence :: rat
  source :: signal_source

record post =
  post_id :: string
  title :: string
  content :: "string option"
  author_name :: string
  upvotes :: int
  downvotes :: "int option"

definition KNOWN_TOKENS :: "string list" where
  "KNOWN_TOKENS =
     [''BTC'', ''ETH'', ''SOL'', ''DOGE'', ''XRP'', ''ADA'', ''AVAX'', ''DOT'', ''MATIC'', ''LINK'',
      ''UNI'', ''AAVE'', ''ATOM'', ''FTM'', ''NEAR'', ''APT'', ''ARB'', ''OP'', ''SUI'', ''SEI'',
      ''BONK'', ''PEPE'', ''SHIB'', ''WIF'', ''FLOKI'', ''MEME'', ''BOME'', ''SLERF'', ''POPCAT'',
      ''JUP'', ''PYTH'', ''JTO'', ''TIA'', ''INJ'', ''RENDER'', ''FET'', ''TAO'', ''WLD'', ''ARKM'',
      ''ONDO'', ''ENA'', ''ETHFI'', ''ALT'', ''STRK'', ''MANTA'', ''DYM'', ''PIXEL'', ''PORTAL'',
      ''LTC'', ''BCH'', ''ETC'', ''FIL'', ''ICP'', ''HBAR'', ''VET'', ''ALGO'', ''EGLD'', ''SAND'',
      ''MANA'', ''AXS'', ''GMT'', ''APE'', ''GALA'', ''ENJ'', ''IMX'', ''BLUR'', ''MAGIC'', ''PRIME'',
      ''STX'', ''ORDI'', ''SATS'', ''RATS'', ''MTRX'', ''AI'', ''GPT'', ''AGIX'', ''OCEAN'', ''RNDR'']"

definition COMMON_WORDS :: "string list" where
  "COMMON_WORDS =
     [''THE'', ''AND'', ''FOR'', ''ARE'', ''BUT'', ''NOT'', ''YOU'', ''ALL'', ''CAN'', ''HER'',
      ''WAS'', ''ONE'', ''OUR'', ''OUT'', ''HAS'', ''HIS'', ''HOW'', ''ITS'', ''MAY'', ''NEW'',
      ''NOW'', ''OLD'', ''SEE'', ''WAY'', ''WHO'', ''BOY'', ''DID'', ''GET'', ''LET'', ''PUT'',
      ''SAY'', ''SHE'', ''TOO'', ''USE'', ''USD'', ''USDT'', ''COIN'', ''TOKEN'', ''THIS'',
      ''THAT'', ''WITH'', ''FROM'', ''HAVE'', ''BEEN'', ''WILL'', ''WHAT'', ''WHEN'', ''YOUR'',
      ''JUST'', ''MORE'', ''SOME'', ''THAN'', ''THEM'', ''THEN'', ''VERY'', ''WOULD'', ''ABOUT'']"

definition extractTpSl :: "string \<Rightarrow> string option \<times> string option" where
  "extractTpSl text = (matchFirst TP_PATTERN text, matchFirst SL_PATTERN text)"

definition extractAmount :: "string \<Rightarrow> string option" where
  "extractAmount text =
     (case matchFirst AMOUNT_PATTERN text of
        None \<Rightarrow> None
      | Some a \<Rightarrow> Some (filter (\<lambda>c. c \<noteq> CHR ''$'') a))"

text \<open>\<^verbatim>\<open>token.replace(/^\$/, "").toUpperCase()\<close>\<close>

definition cleanToken :: "string \<Rightarrow> string" where
  "cleanToken t =
     toUpperCase (case t of [] \<Rightarrow> [] | c # cs \<Rightarrow> if c = CHR ''$'' then cs else c # cs)"

definition isValidToken :: "string \<Rightarrow> bool" where
  "isValidToken t =
     (let clean = cleanToken t
      in if length clean < 2 \<or> 10 < length clean then False
         else if clean \<in> set COMMON_WORDS then False
         else if \<not> (clean \<noteq> [] \<and> list_all isUpper clean) then False
         else True)"

definition isKnownToken :: "string \<Rightarrow> bool" where
  "isKnownToken t = (cleanToken t \<in> set KNOWN_TOKENS)"

definition originalText :: "post \<Rightarrow> string" where
  "originalText p = title p @ '' '' @ (case content p of None \<Rightarrow> [] | Some c \<Rightarrow> c)"

text \<open>A vote count read from JSON is the binary64 value nearest to the integer.\<close>

definition jsnum :: "int \<Rightarrow> rat" where
  "jsnum n = fl (of_int n)"

definition netVotes :: "post \<Rightarrow> rat" where
  "netVotes p =
     jssub (jsnum (upvotes p)) (case downvotes p of None \<Rightarrow> 0 | Some d \<Rightarrow> jsnum d)"

definition baseConfidence :: "post \<Rightarrow> rat" where
  "baseConfidence p =
     min (jslit (9 / 10)) (max (jslit (1 / 10)) (jsadd (jslit (3 / 10)) (jsdiv (netVotes p) 50)))"

definition sourceOf :: "post \<Rightarrow> signal_source" where
  "sourceOf p =
     \<lparr>postId = post_id p, source_title = title p, source_author = author_name p,
      source_upvotes = upvotes p\<rparr>"

text \<open>The signal pushed by the body of the buy loop and of the sell loop.\<close>

definition intentSignal :: "action \<Rightarrow> post \<Rightarrow> string \<Rightarrow> TradingSignal" where
  "intentSignal a p t =
     (let tpsl = extractTpSl (originalText p);
          amt = extractAmount (originalText p);
          conf = (if isKnownToken t then jsadd (baseConfidence p) (jslit (2 / 10))
                  else baseConfidence p)
      in \<lparr>action = a, token = cleanToken t, amount = amt, tp = fst tpsl, sl = snd tpsl,
          confidence = min (jslit (95 / 100)) conf, source = sourceOf p\<rparr>)"

text \<open>The test \<^verbatim>\<open>token && isValidToken(token)\<close> on \<^verbatim>\<open>match[1]\<close>.\<close>

fun usable :: "string option \<Rightarrow> bool" where
  "usable None = False"
| "usable (Some t) = (t \<noteq> [] \<and> isValidToken t)"

definition patternSignals :: "action \<Rightarrow> regex list \<Rightarrow> post \<Rightarrow> TradingSignal list" where
  "patternSignals a ps p =
     concat (map (\<lambda>pat. map (\<lambda>m. intentSignal a p (the m))
                          (filter usable (execAll pat (originalText p) 0))) ps)"

definition mentionSignal :: "post \<Rightarrow> string \<Rightarrow> TradingSignal" where
  "mentionSignal p t =
     \<lparr>action = Buy, token = cleanToken t, amount = None, tp = None, sl = None,
      confidence = jsmul (baseConfidence p) (jslit (7 / 10)), source = sourceOf p\<rparr>"

text \<open>The loop over \<^verbatim>\<open>TOKEN_MENTION_PATTERN\<close>, with the array it pushes to.\<close>

fun mentionLoop :: "post \<Rightarrow> string option list \<Rightarrow> TradingSignal list \<Rightarrow> TradingSignal list" where
  "mentionLoop p [] signals = signals"
| "mentionLoop p (None # ms) signals = mentionLoop p ms signals"
| "mentionLoop p (Some t # ms) signals =
     (if t \<noteq> [] \<and> isKnownToken t then
        (if list_ex (\<lambda>s. token s = cleanToken t) signals then mentionLoop p ms signals
         else mentionLoop p ms (signals @ [mentionSignal p t]))
      else mentionLoop p ms signals)"

fun actionName :: "action \<Rightarrow> string" where
  "actionName Buy = ''buy''"
| "actionName Sell = ''sell''"

definition signalKey :: "TradingSignal \<Rightarrow> string" where
  "signalKey s = actionName (action s) @ ''-'' @ token s"

text \<open>The final \<^verbatim>\<open>filter\<close> with the set \<^verbatim>\<open>seen\<close>.\<close>

fun dedupe :: "string list \<Rightarrow> TradingSignal list \<Rightarrow> TradingSignal list" where
  "dedupe seen [] = []"
| "dedupe seen (s # ss) =
     (if signalKey s \<in> set seen then dedupe seen ss
      else s # dedupe (signalKey s # seen) ss)"

definition intentSignals :: "post \<Rightarrow> TradingSignal list" where
  "intentSignals p = patternSignals Buy BUY_PATTERNS p @ patternSignals Sell SELL_PATTERNS p"

text \<open>The matches of \<^verbatim>\<open>TOKEN_MENTION_PATTERN\<close> and the array before the final filter.\<close>

definition mentions :: "post \<Rightarrow> string option list" where
  "mentions p = execAll TOKEN_MENTION_PATTERN (originalText p) 0"

definition candidates :: "post \<Rightarrow> TradingSignal list" where
  "candidates p = mentionLoop p (mentions p) (intentSignals p)"

definition parseSignalsFromPost :: "post \<Rightarrow> TradingSignal list" where
  "parseSignalsFromPost p = dedupe [] (candidates p)"

text \<open>
  The \<^verbatim>\<open>Map\<close> of \<^verbatim>\<open>parseSignalsFromFeed\<close> is an association list in
  insertion order: setting an existing key keeps its place, as a JavaScript Map does.
\<close>

definition keepBest ::
  "(string \<times> TradingSignal) list \<Rightarrow> TradingSignal \<Rightarrow> (string \<times> TradingSignal) list" where
  "keepBest m s =
     (case map_of m (signalKey s) of
        None \<Rightarrow> AList.update (signalKey s) s m
      | Some existing \<Rightarrow>
          if confidence existing < confidence s then AList.update (signalKey s) s m else m)"

definition parseSignalsFromFeed :: "post list \<Rightarrow> TradingSignal list" where
  "parseSignalsFromFeed posts =
     (let allSignals = concat (map parseSignalsFromPost posts);
          tokenActionMap = foldl keepBest [] allSignals
      in sort_key (\<lambda>s. - confidence s) (map snd tokenActionMap))"

subsection \<open>Notions used to state the properties of the parser\<close>

text \<open>
  The confidence of an intent-pattern signal as a formula over the rationals,
  \<^verbatim>\<open>min(0.95, clamp(0.3 + (upvotes - downvotes)/50, 0.1, 0.9) + b)\<close>, and the same
  formula with every constant and operation rounded to binary64.
\<close>

definition clamp :: "rat \<Rightarrow> rat \<Rightarrow> rat \<Rightarrow> rat" where
  "clamp x lo hi = max lo (min hi x)"

definition exactConfidence :: "int \<Rightarrow> int \<Rightarrow> bool \<Rightarrow> rat" where
  "exactConfidence up down known =
     min (95 / 100)
       (clamp (3 / 10 + of_int (up - down) / 50) (1 / 10) (9 / 10) + (if known then 2 / 10 else 0))"

definition doubleConfidence :: "int \<Rightarrow> int \<Rightarrow> bool \<Rightarrow> rat" where
  "doubleConfidence up down known =
     (let base = clamp (jsadd (jslit (3 / 10)) (jsdiv (jssub (jsnum up) (jsnum down)) 50))
                   (jslit (1 / 10)) (jslit (9 / 10))
      in min (jslit (95 / 100)) (if known then jsadd base (jslit (2 / 10)) else base))"

text \<open>\<^verbatim>\<open>post.downvotes || 0\<close>\<close>

definition downvotesOr0 :: "post \<Rightarrow> int" where
  "downvotesOr0 p = (case downvotes p of None \<Rightarrow> 0 | Some d \<Rightarrow> d)"

text \<open>The pair that the deduplication key stands for.\<close>

definition actionToken :: "TradingSignal \<Rightarrow> action \<times> string" where
  "actionToken s = (action s, token s)"

text \<open>The first element of a list with the key of \<open>s\<close>.\<close>

definition firstWithKey :: "TradingSignal list \<Rightarrow> TradingSignal \<Rightarrow> TradingSignal option" where
  "firstWithKey xs s = find (\<lambda>x. actionToken x = actionToken s) xs"

text \<open>
  The invariant of the loop over \<^verbatim>\<open>allSignals\<close>: the map holds, for every key seen
  so far, a signal with that key whose confidence no signal seen with that key exceeds.
\<close>

definition keepsBest :: "(string \<times> TradingSignal) list \<Rightarrow> TradingSignal list \<Rightarrow> bool" where
  "keepsBest m xs \<longleftrightarrow>
     distinct (map fst m) \<and> dom (map_of m) = signalKey ` set xs \<and>
     (\<forall>k v. map_of m k = Some v \<longrightarrow>
        signalKey v = k \<and> v \<in> set xs \<and>
        (\<forall>x\<in>set xs. signalKey x = k \<longrightarrow> confidence x \<le> confidence v))"

subsection \<open>Example posts\<close>

definition post_pepe :: post where
  "post_pepe =
     \<lparr>post_id = ''p1'', title = ''buying $PEPE, looks ready to pump'', content = None,
      author_name = ''molty'', upvotes = 20, downvotes = Some 2\<rparr>"

text \<open>A bare mention of a known token in a post voted down.\<close>

definition post_mention :: post where
  "post_mention =
     \<lparr>post_id = ''p2'', title = ''$PEPE'', content = None, author_name = ''molty'',
      upvotes = 0, downvotes = Some 10\<rparr>"

text \<open>A buy intent for a token that is not in the known set, with the same votes.\<close>

definition post_unknown :: post where
  "post_unknown =
     \<lparr>post_id = ''p3'', title = ''buy FOOBAR'', content = None, author_name = ''molty'',
      upvotes = 0, downvotes = Some 10\<rparr>"

text \<open>A sell intent for a known token written with the dollar sign.\<close>

definition post_sell :: post where
  "post_sell =
     \<lparr>post_id = ''p4'', title = ''sell $PEPE'', content = None, author_name = ''molty'',
      upvotes = 3, downvotes = None\<rparr>"

section \<open>JSON values, exceptions and external calls\<close>

text \<open>
  A value of type \<^verbatim>\<open>any\<close> (a parsed response body, a field of a request body).
  Numbers are binary64 values as above.
\<close>

datatype json =
    JUndefined
  | JNull
  | JBool bool
  | JNum rat
  | JStr string
  | JArr "json list"
  | JObj "(string \<times> json) list"

text \<open>JavaScript truthiness (\<^verbatim>\<open>if (x)\<close>, \<^verbatim>\<open>!x\<close>, \<^verbatim>\<open>x || y\<close>, \<^verbatim>\<open>x && y\<close>).\<close>

fun truthy :: "json \<Rightarrow> bool" where
  "truthy JUndefined = False"
| "truthy JNull = False"
| "truthy (JBool b) = b"
| "truthy (JNum r) = (r \<noteq> 0)"
| "truthy (JStr s) = (s \<noteq> [])"
| "truthy (JArr xs) = True"
| "truthy (JObj kvs) = True"

text \<open>
  Property access \<^verbatim>\<open>x.k\<close>: a TypeError on \<^verbatim>\<open>undefined\<close> and \<^verbatim>\<open>null\<close>,
  \<^verbatim>\<open>undefined\<close> for a missing property. An exception is \<open>Inl\<close> of its message.
\<close>

fun getProp :: "json \<Rightarrow> string \<Rightarrow> string + json" where
  "getProp JUndefined k = Inl (''Cannot read properties of undefined (reading '' @ k @ '')'')"
| "getProp JNull k = Inl (''Cannot read properties of null (reading '' @ k @ '')'')"
| "getProp (JObj kvs) k = Inr (case map_of kvs k of None \<Rightarrow> JUndefined | Some v \<Rightarrow> v)"
| "getProp (JArr xs) k = Inr (if k = ''length'' then JNum (of_nat (length xs)) else JUndefined)"
| "getProp (JStr s) k = Inr (if k = ''length'' then JNum (of_nat (length s)) else JUndefined)"
| "getProp (JBool b) k = Inr JUndefined"
| "getProp (JNum r) k = Inr JUndefined"

text \<open>Optional chaining \<^verbatim>\<open>x?.k\<close>.\<close>

definition optProp :: "json \<Rightarrow> string \<Rightarrow> json" where
  "optProp x k = (case getProp x k of Inl e \<Rightarrow> JUndefined | Inr v \<Rightarrow> v)"

text \<open>\<^verbatim>\<open>x || y\<close> on values.\<close>

definition orElse :: "json \<Rightarrow> json \<Rightarrow> json" where
  "orElse x y = (if truthy x then x else y)"

fun isPrefix :: "string \<Rightarrow> string \<Rightarrow> bool" where
  "isPrefix [] t = True"
| "isPrefix (a # s) [] = False"
| "isPrefix (a # s) (b # t) = (a = b \<and> isPrefix s t)"

text \<open>\<^verbatim>\<open>msg.includes(sub)\<close>\<close>

fun strIncludes :: "string \<Rightarrow> string \<Rightarrow> bool" where
  "strIncludes [] sub = (sub = [])"
| "strIncludes (c # cs) sub = (isPrefix sub (c # cs) \<or> strIncludes cs sub)"

text \<open>The decimal digits of a non-negative integer.\<close>

function showDigits :: "int \<Rightarrow> string" where
  "showDigits i =
     (if i < 10 then [char_of (48 + i)] else showDigits (i div 10) @ [char_of (48 + i mod 10)])"
  by pat_completeness auto
termination
  by (relation "measure nat") auto

declare showDigits.simps [simp del]

definition showNat :: "nat \<Rightarrow> string" where
  "showNat n = showDigits (int n)"

text \<open>
  An asynchronous function of the source is a computation that appends the external
  calls it makes to a trace and either throws (\<open>Inl\<close> message) or returns. The
  outcome of every external call is given by the environment, one field per call site.
\<close>

type_synonym ('e, 'a) io = "'e list \<Rightarrow> (string + 'a) \<times> 'e list"

definition io_return :: "'a \<Rightarrow> ('e, 'a) io" where
  "io_return x = (\<lambda>tr. (Inr x, tr))"

definition io_throw :: "string \<Rightarrow> ('e, 'a) io" where
  "io_throw e = (\<lambda>tr. (Inl e, tr))"

text \<open>A computation without external calls that may throw.\<close>

definition io_lift :: "string + 'a \<Rightarrow> ('e, 'a) io" where
  "io_lift r = (\<lambda>tr. (r, tr))"

text \<open>An external call \<open>c\<close> whose outcome is \<open>r\<close>.\<close>

definition io_call :: "'e \<Rightarrow> string + 'a \<Rightarrow> ('e, 'a) io" where
  "io_call c r = (\<lambda>tr. (r, tr @ [c]))"

definition io_bind :: "('e, 'a) io \<Rightarrow> ('a \<Rightarrow> ('e, 'b) io) \<Rightarrow> ('e, 'b) io" where
  "io_bind m f =
     (\<lambda>tr. case m tr of (Inl e, tr') \<Rightarrow> (Inl e, tr') | (Inr x, tr') \<Rightarrow> f x tr')"

text \<open>\<^verbatim>\<open>try { m } catch (e) { h(e) }\<close>\<close>

definition io_catch :: "('e, 'a) io \<Rightarrow> (string \<Rightarrow> ('e, 'a) io) \<Rightarrow> ('e, 'a) io" where
  "io_catch m h =
     (\<lambda>tr. case m tr of (Inl e, tr') \<Rightarrow> h e tr' | (Inr x, tr') \<Rightarrow> (Inr x, tr'))"

text \<open>Running a computation from the empty trace.\<close>

definition run :: "('e, 'a) io \<Rightarrow> (string + 'a) \<times> 'e list" where
  "run m = m []"

text \<open>The HTTP endpoints of the aggregators.\<close>

datatype endpoint =
    KyberRoutes
  | KyberBuild
  | OdosQuote
  | OdosAssemble
  | ParaswapPrices
  | ParaswapTransactions
  | OneInchSwap

text \<open>
  The calls on the external interfaces: the wallet table, the aggregator endpoints,
  and the chain client (\<^verbatim>\<open>publicClient\<close>, \<^verbatim>\<open>walletClient\<close>).
\<close>

datatype call =
    SqlSelectWallet json
  | Fetch endpoint
  | GetBalance string
  | ReadContract json string
  | WriteContract json string json int
  | SendTransaction json json int
  | WaitForTransactionReceipt string

text \<open>A \<^verbatim>\<open>fetch\<close> response: \<^verbatim>\<open>res.ok\<close>, \<^verbatim>\<open>res.status\<close>, and the outcome of \<^verbatim>\<open>await res.json()\<close>.\<close>

record response =
  ok :: bool
  status :: nat
  body :: "string + json"

text \<open>An HTTP reply of a handler: \<^verbatim>\<open>res.status(n).json(payload)\<close>.\<close>

record reply =
  reply_status :: nat
  payload :: json

text \<open>
  Functions of the libraries (viem, Node crypto) and JavaScript built-ins that the
  sources call and this repository does not define. They make no external call; each
  may throw.
\<close>

record lib =
  parseEther :: "json \<Rightarrow> string + int"
  formatUnits :: "int \<Rightarrow> nat \<Rightarrow> string"
  bigIntOfJson :: "json \<Rightarrow> string + int"
  encodeDevbuy :: "json \<Rightarrow> string \<Rightarrow> string + json"
  accountOfKey :: "json \<Rightarrow> string + string"
  parseFloat :: "json \<Rightarrow> rat option"
  stringOf :: "json \<Rightarrow> string"

definition showInt :: "int \<Rightarrow> string" where
  "showInt i = (if i < 0 then ''-'' @ showDigits (- i) else showDigits i)"

definition jsonError :: "nat \<Rightarrow> string \<Rightarrow> reply" where
  "jsonError n msg = \<lparr>reply_status = n, payload = JObj [(''error'', JStr msg)]\<rparr>"

section \<open>Buying through the aggregators (api/trade/buy.ts)\<close>

text \<open>The object returned by \<^verbatim>\<open>getSwapQuote\<close>: \<^verbatim>\<open>{to, data, value, type}\<close>.\<close>

record swapData =
  swap_to :: json
  swap_data :: json
  swap_value :: json
  swap_type :: string

text \<open>The outcome of each \<^verbatim>\<open>fetch\<close> of \<^verbatim>\<open>getSwapQuote\<close>: a thrown error or a response.\<close>

record aggregators =
  kyberRoutes_r :: "string + response"
  kyberBuild_r :: "string + response"
  odosQuote_r :: "string + response"
  odosAssemble_r :: "string + response"
  paraswapPrices_r :: "string + response"
  paraswapTransactions_r :: "string + response"
  oneInchSwap_r :: "string + response"

text \<open>The body of the first \<^verbatim>\<open>try\<close> block of \<^verbatim>\<open>getSwapQuote\<close> (Kyberswap).\<close>

definition tryKyberswap :: "aggregators \<Rightarrow> string \<Rightarrow> (call, swapData option) io" where
  "tryKyberswap net sellAmount =
     io_bind (io_call (Fetch KyberRoutes) (kyberRoutes_r net)) (\<lambda>kyberRouteRes.
     if ok kyberRouteRes then
       io_bind (io_lift (body kyberRouteRes)) (\<lambda>routeData.
       io_bind (io_lift (getProp routeData ''data'')) (\<lambda>routeDataData.
       if truthy (optProp routeDataData ''routeSummary'') then
         io_bind (io_call (Fetch KyberBuild) (kyberBuild_r net)) (\<lambda>kyberBuildRes.
         if ok kyberBuildRes then
           io_bind (io_lift (body kyberBuildRes)) (\<lambda>buildData.
           io_bind (io_lift (getProp buildData ''data'')) (\<lambda>buildDataData.
           if truthy (optProp buildDataData ''data'') then
             io_return (Some \<lparr>swap_to = optProp routeDataData ''routerAddress'',
                               swap_data = optProp buildDataData ''data'',
                               swap_value = JStr sellAmount,
                               swap_type = ''kyberswap''\<rparr>)
           else io_return None))
         else io_return None)
       else io_return None))
     else io_return None)"

text \<open>The second block (Odos).\<close>

definition tryOdos :: "aggregators \<Rightarrow> (call, swapData option) io" where
  "tryOdos net =
     io_bind (io_call (Fetch OdosQuote) (odosQuote_r net)) (\<lambda>odosQuote.
     if ok odosQuote then
       io_bind (io_lift (body odosQuote)) (\<lambda>quoteData.
       io_bind (io_lift (getProp quoteData ''pathId'')) (\<lambda>pathId.
       if truthy pathId then
         io_bind (io_call (Fetch OdosAssemble) (odosAssemble_r net)) (\<lambda>odosAssemble.
         if ok odosAssemble then
           io_bind (io_lift (body odosAssemble)) (\<lambda>assembleData.
           io_bind (io_lift (getProp assembleData ''transaction'')) (\<lambda>transaction.
           if truthy transaction then
             io_return (Some \<lparr>swap_to = optProp transaction ''to'',
                               swap_data = optProp transaction ''data'',
                               swap_value = optProp transaction ''value'',
                               swap_type = ''odos''\<rparr>)
           else io_return None))
         else io_return None)
       else io_return None))
     else io_return None)"

text \<open>The third block (ParaSwap): any \<^verbatim>\<open>ok\<close> reply of the transaction endpoint is returned.\<close>

definition tryParaswap :: "aggregators \<Rightarrow> (call, swapData option) io" where
  "tryParaswap net =
     io_bind (io_call (Fetch ParaswapPrices) (paraswapPrices_r net)) (\<lambda>priceRes.
     if ok priceRes then
       io_bind (io_lift (body priceRes)) (\<lambda>priceData.
       io_bind (io_lift (getProp priceData ''priceRoute'')) (\<lambda>priceRoute.
       if truthy priceRoute then
         io_bind (io_call (Fetch ParaswapTransactions) (paraswapTransactions_r net)) (\<lambda>txRes.
         if ok txRes then
           io_bind (io_lift (body txRes)) (\<lambda>txData.
           io_bind (io_lift (getProp txData ''to'')) (\<lambda>txTo.
           io_return (Some \<lparr>swap_to = txTo,
                             swap_data = optProp txData ''data'',
                             swap_value = optProp txData ''value'',
                             swap_type = ''paraswap''\<rparr>)))
         else io_return None)
       else io_return None))
     else io_return None)"

text \<open>The fourth block (1inch).\<close>

definition tryOneInch :: "aggregators \<Rightarrow> (call, swapData option) io" where
  "tryOneInch net =
     io_bind (io_call (Fetch OneInchSwap) (oneInchSwap_r net)) (\<lambda>oneInchRes.
     if ok oneInchRes then
       io_bind (io_lift (body oneInchRes)) (\<lambda>data.
       io_bind (io_lift (getProp data ''tx'')) (\<lambda>tx.
       if truthy tx then
         io_return (Some \<lparr>swap_to = optProp tx ''to'',
                           swap_data = optProp tx ''data'',
                           swap_value = optProp tx ''value'',
                           swap_type = ''1inch''\<rparr>)
       else io_return None))
     else io_return None)"

text \<open>
  A \<^verbatim>\<open>try\<close> block of \<^verbatim>\<open>getSwapQuote\<close> whose \<^verbatim>\<open>catch\<close> only logs: an
  exception means that the block produced no quote.
\<close>

definition logged :: "(call, swapData option) io \<Rightarrow> (call, swapData option) io" where
  "logged m = io_catch m (\<lambda>e. io_return None)"

text \<open>
  \<^verbatim>\<open>getSwapQuote(buyToken, sellAmount, takerAddress)\<close>: a \<^verbatim>\<open>return\<close> inside a
  block leaves the function; after the last block it returns \<^verbatim>\<open>null\<close>. The
  token and the taker only occur in the requests, which the trace names by endpoint.
\<close>

definition getSwapQuote ::
  "aggregators \<Rightarrow> json \<Rightarrow> string \<Rightarrow> string \<Rightarrow> (call, swapData option) io" where
  "getSwapQuote net buyToken sellAmount takerAddress =
     io_bind (logged (tryKyberswap net sellAmount)) (\<lambda>r1.
     case r1 of Some q \<Rightarrow> io_return (Some q) | None \<Rightarrow>
     io_bind (logged (tryOdos net)) (\<lambda>r2.
     case r2 of Some q \<Rightarrow> io_return (Some q) | None \<Rightarrow>
     io_bind (logged (tryParaswap net)) (\<lambda>r3.
     case r3 of Some q \<Rightarrow> io_return (Some q) | None \<Rightarrow>
     io_bind (logged (tryOneInch net)) (\<lambda>r4.
     case r4 of Some q \<Rightarrow> io_return (Some q) | None \<Rightarrow>
     io_return None))))"

text \<open>The request of the buy handler and the outcome of each of its external calls.\<close>

record buy_request =
  buy_method :: string
  buy_sessionId :: json
  buy_tokenAddress :: json
  buy_amountEth :: json

record buy_env =
  buy_walletRow_r :: "string + json"
  buy_getBalance_r :: "string + int"
  buy_net :: aggregators
  buy_sendSwap_r :: "string + string"
  buy_sendDevbuy_r :: "string + string"
  buy_waitReceipt_r :: "string + unit"
  buy_readSymbol_r :: "string + json"
  buy_readDecimals_r :: "string + nat"
  buy_readBalanceOf_r :: "string + int"

definition CLANKER_DEVBUY :: string where
  "CLANKER_DEVBUY = ''0x1331f0788F9c08C8F38D52c7a1152250A9dE00be''"

text \<open>The reply of the \<^verbatim>\<open>catch\<close> around the devbuy call.\<close>

definition notTradeable :: "lib \<Rightarrow> json \<Rightarrow> reply" where
  "notTradeable L tokenAddress =
     \<lparr>reply_status = 400, payload = JObj
        [(''error'', JStr (''Token not tradeable via our API yet. Clanker v4 tokens '' @
            ''use Uniswap v4 which most aggregators don'' @ [CHR 0x27] @
            ''t support yet. Try trading '' @
            ''on clanker.world directly or wait for aggregator support.'')),
         (''clankerUrl'', JStr (''https://clanker.world/clanker/'' @
            stringOf L tokenAddress))]\<rparr>"

text \<open>
  The \<^verbatim>\<open>if (swapData) ... else ...\<close> of the handler. It gives the transaction hash
  and the swap type, or the reply that the inner \<^verbatim>\<open>catch\<close> returns.
\<close>

definition buy_submit ::
  "lib \<Rightarrow> buy_env \<Rightarrow> buy_request \<Rightarrow> string \<Rightarrow> int \<Rightarrow> swapData option \<Rightarrow>
   (call, reply + string \<times> string) io" where
  "buy_submit L env req address amountIn swapData =
     (case swapData of
        Some q \<Rightarrow>
          io_bind (io_lift (bigIntOfJson L (orElse (swap_value q) (JStr (showInt amountIn)))))
            (\<lambda>v.
          io_bind (io_call (SendTransaction (swap_to q) (swap_data q) v) (buy_sendSwap_r env))
            (\<lambda>hash.
          io_return (Inr (hash, swap_type q))))
      | None \<Rightarrow>
          io_catch
            (io_bind (io_lift (encodeDevbuy L (buy_tokenAddress req) address)) (\<lambda>buyData.
             io_bind (io_call (SendTransaction (JStr CLANKER_DEVBUY) buyData amountIn)
                        (buy_sendDevbuy_r env)) (\<lambda>hash.
             io_return (Inr (hash, ''clanker'')))))
            (\<lambda>devbuyError.
               io_return (Inl (notTradeable L (buy_tokenAddress req)))))"

text \<open>The reads after the receipt and the success reply.\<close>

definition buy_report ::
  "lib \<Rightarrow> buy_env \<Rightarrow> buy_request \<Rightarrow> string \<Rightarrow> string \<Rightarrow> string \<Rightarrow> (call, reply) io" where
  "buy_report L env req address hash swapType =
     io_bind (io_call (WaitForTransactionReceipt hash) (buy_waitReceipt_r env)) (\<lambda>_.
     io_bind
       (io_catch
          (io_bind (io_call (ReadContract (buy_tokenAddress req) ''symbol'')
                      (buy_readSymbol_r env)) (\<lambda>symbol.
           io_catch
             (io_bind (io_call (ReadContract (buy_tokenAddress req) ''decimals'')
                         (buy_readDecimals_r env)) (\<lambda>decimals.
              io_return (symbol, decimals)))
             (\<lambda>e. io_return (symbol, 18))))
          (\<lambda>e. io_return (JStr ''TOKEN'', 18))) (\<lambda>(symbol, decimals).
     io_bind (io_call (ReadContract (buy_tokenAddress req) ''balanceOf'')
                (buy_readBalanceOf_r env)) (\<lambda>tokenBalance.
     io_return \<lparr>reply_status = 200, payload = JObj
       [(''success'', JBool True),
        (''transactionHash'', JStr hash),
        (''tokensReceived'', JStr (formatUnits L tokenBalance decimals)),
        (''symbol'', symbol),
        (''via'', JStr swapType)]\<rparr>)))"

text \<open>The \<^verbatim>\<open>try\<close> block of the handler.\<close>

definition buy_body :: "lib \<Rightarrow> buy_env \<Rightarrow> buy_request \<Rightarrow> (call, reply) io" where
  "buy_body L env req =
     io_bind (io_call (SqlSelectWallet (buy_sessionId req)) (buy_walletRow_r env)) (\<lambda>row.
     if \<not> truthy (optProp row ''encrypted_private_key'') then
       io_return (jsonError 400 ''No wallet found. Register first!'')
     else
       io_bind (io_lift (accountOfKey L (optProp row ''encrypted_private_key''))) (\<lambda>address.
       io_bind (io_call (GetBalance address) (buy_getBalance_r env)) (\<lambda>balance.
       io_bind (io_lift (parseEther L (orElse (buy_amountEth req) (JStr ''0.001''))))
         (\<lambda>amountIn.
       io_bind (io_lift (parseEther L (JStr ''0.0005''))) (\<lambda>gasBuffer.
       if balance < amountIn + gasBuffer then
         io_return (jsonError 400
           (''Insufficient ETH. You have '' @ formatUnits L balance 18 @ '' ETH but need '' @
            stringOf L (orElse (buy_amountEth req) (JStr ''0.001'')) @ '' ETH + gas''))
       else
         io_bind (getSwapQuote (buy_net env) (buy_tokenAddress req) (showInt amountIn) address)
           (\<lambda>swapData.
         io_bind (buy_submit L env req address amountIn swapData) (\<lambda>submitted.
         case submitted of
           Inl early \<Rightarrow> io_return early
         | Inr (hash, swapType) \<Rightarrow> buy_report L env req address hash swapType)))))))"

text \<open>The outer \<^verbatim>\<open>catch\<close> of the handler.\<close>

definition buy_catch :: "string \<Rightarrow> reply" where
  "buy_catch msg =
     (if strIncludes msg ''insufficient funds'' then
        jsonError 400 ''Insufficient ETH for gas + swap''
      else if strIncludes msg ''No swap route'' \<or> strIncludes msg ''No route'' then
        jsonError 400 ''No liquidity found. Token might be too new or only on Uniswap v4.''
      else jsonError 500 (if msg \<noteq> [] then msg else ''Buy failed''))"

definition buy_handler :: "lib \<Rightarrow> buy_env \<Rightarrow> buy_request \<Rightarrow> (call, reply) io" where
  "buy_handler L env req =
     (if buy_method req = ''OPTIONS'' then
        io_return \<lparr>reply_status = 200, payload = JUndefined\<rparr>
      else if buy_method req \<noteq> ''POST'' then io_return (jsonError 405 ''Method not allowed'')
      else if \<not> truthy (buy_tokenAddress req) then
        io_return (jsonError 400 ''Token address required'')
      else io_catch (buy_body L env req) (\<lambda>msg. io_return (buy_catch msg)))"

section \<open>The trade service and the sell handler\<close>

text \<open>
  The outcome of each external call of \<^verbatim>\<open>buyToken\<close>, \<^verbatim>\<open>sellToken\<close> (trade
  service) and of the sell handler, named after the call site. The two reads of the
  native balance of a sell are two fields: the chain may answer them differently.
\<close>

record trade_env =
  walletRow_r :: "string + json"
  routes_r :: "string + response"
  build_r :: "string + response"
  readDecimals_r :: "string + nat"
  readBalanceOf_r :: "string + int"
  approve_r :: "string + string"
  waitApprove_r :: "string + unit"
  ethBefore_r :: "string + int"
  sendSwap_r :: "string + string"
  waitSwap_r :: "string + unit"
  ethAfter_r :: "string + int"

text \<open>
  \<^verbatim>\<open>getSwapQuote(sellToken, buyToken, sellAmount, takerAddress)\<close> of the trade
  service and of the sell handler (the same function in both files, Kyberswap only):
  it throws where the aggregator gives no route. Reading the error text of a failed
  response is taken to succeed.
\<close>

definition kyberSwapQuote :: "trade_env \<Rightarrow> (call, json) io" where
  "kyberSwapQuote env =
     io_bind (io_call (Fetch KyberRoutes) (routes_r env)) (\<lambda>res.
     if \<not> ok res then io_throw (''Failed to get swap route: '' @ showNat (status res))
     else
       io_bind (io_lift (body res)) (\<lambda>routeData.
       io_bind (io_lift (getProp routeData ''data'')) (\<lambda>routeDataData.
       if \<not> truthy (optProp routeDataData ''routeSummary'') then
         io_throw ''No route found for this swap''
       else
         io_bind (io_call (Fetch KyberBuild) (build_r env)) (\<lambda>buildRes.
         if \<not> ok buildRes then io_throw (''Failed to build swap: '' @ showNat (status buildRes))
         else
           io_bind (io_lift (body buildRes)) (\<lambda>buildData.
           io_lift (getProp buildData ''data''))))))"

definition failure :: "string \<Rightarrow> json" where
  "failure msg = JObj [(''success'', JBool False), (''error'', JStr msg)]"

definition buyToken_catch :: "string \<Rightarrow> json" where
  "buyToken_catch msg =
     (if strIncludes msg ''insufficient funds'' \<or> strIncludes msg ''exceeds the balance'' then
        failure ''Insufficient funds. Add more ETH to your wallet.''
      else if strIncludes msg ''No route found'' then
        failure ''No liquidity found for this token yet. Try again later.''
      else failure (''Buy failed: '' @ (if msg \<noteq> [] then msg else ''Check token address'')))"

text \<open>\<^verbatim>\<open>buyToken(encryptedPrivateKey, tokenAddress, amountEth)\<close> of the trade service.\<close>

definition buyToken :: "lib \<Rightarrow> trade_env \<Rightarrow> json \<Rightarrow> string \<Rightarrow> string \<Rightarrow> (call, json) io" where
  "buyToken L env encryptedPrivateKey tokenAddress amountEth =
     io_catch
       (io_bind (io_lift (accountOfKey L encryptedPrivateKey)) (\<lambda>address.
        io_bind (io_lift (parseEther L (JStr amountEth))) (\<lambda>amountIn.
        io_bind (kyberSwapQuote env) (\<lambda>swapData.
        io_bind (io_lift (getProp swapData ''routerAddress'')) (\<lambda>routerAddress.
        io_bind (io_call (SendTransaction routerAddress (optProp swapData ''data'') amountIn)
                   (sendSwap_r env)) (\<lambda>hash.
        io_bind (io_call (WaitForTransactionReceipt hash) (waitSwap_r env)) (\<lambda>receipt.
        io_bind (io_call (ReadContract (JStr tokenAddress) ''decimals'') (readDecimals_r env))
          (\<lambda>decimals.
        io_bind (io_call (ReadContract (JStr tokenAddress) ''balanceOf'') (readBalanceOf_r env))
          (\<lambda>balance.
        io_return (JObj
          [(''success'', JBool True),
           (''transactionHash'', JStr hash),
           (''tokensReceived'', JStr (formatUnits L balance decimals))]))))))))))
       (\<lambda>msg. io_return (buyToken_catch msg))"

text \<open>
  \<^verbatim>\<open>amount === "all" ? currentBalance
     : BigInt(Math.floor(parseFloat(amount) * (10 ** decimals)))\<close>;
  \<^verbatim>\<open>parseFloat\<close> gives \<open>None\<close> for NaN and the infinities, on which
  \<^verbatim>\<open>BigInt\<close> throws.
\<close>

definition resolveAmountToSell :: "lib \<Rightarrow> json \<Rightarrow> nat \<Rightarrow> int \<Rightarrow> string + int" where
  "resolveAmountToSell L amountArg decimals currentBalance =
     (if amountArg = JStr ''all'' then Inr currentBalance
      else case parseFloat L amountArg of
             None \<Rightarrow> Inl ''The number NaN cannot be converted to a BigInt''
           | Some x \<Rightarrow> Inr \<lfloor>jsmul x (jsnum (10 ^ decimals))\<rfloor>)"

text \<open>
  The statements of a sell from the decimals read to the result, the same in
  \<^verbatim>\<open>sellToken\<close> and in the sell handler; \<open>Inl\<close> is the early result
  \<^verbatim>\<open>"No tokens to sell"\<close>.
\<close>

definition sell_steps :: "lib \<Rightarrow> trade_env \<Rightarrow> json \<Rightarrow> json \<Rightarrow> string \<Rightarrow> (call, json) io" where
  "sell_steps L env tokenAddress amountArg address =
     io_bind (io_call (ReadContract tokenAddress ''decimals'') (readDecimals_r env)) (\<lambda>decimals.
     io_bind (io_call (ReadContract tokenAddress ''balanceOf'') (readBalanceOf_r env))
       (\<lambda>currentBalance.
     io_bind (io_lift (resolveAmountToSell L amountArg decimals currentBalance))
       (\<lambda>amountToSell.
     if amountToSell = 0 then io_return (failure ''No tokens to sell'')
     else
       io_bind (kyberSwapQuote env) (\<lambda>swapData.
       io_bind (io_lift (getProp swapData ''routerAddress'')) (\<lambda>routerAddress.
       io_bind (io_call (WriteContract tokenAddress ''approve'' routerAddress amountToSell)
                  (approve_r env)) (\<lambda>approveHash.
       io_bind (io_call (WaitForTransactionReceipt approveHash) (waitApprove_r env)) (\<lambda>_.
       io_bind (io_call (GetBalance address) (ethBefore_r env)) (\<lambda>ethBefore.
       io_bind (io_call (SendTransaction routerAddress (optProp swapData ''data'') 0)
                  (sendSwap_r env)) (\<lambda>hash.
       io_bind (io_call (WaitForTransactionReceipt hash) (waitSwap_r env)) (\<lambda>_.
       io_bind (io_call (GetBalance address) (ethAfter_r env)) (\<lambda>ethAfter.
       let ethReceived = ethAfter - ethBefore
       in io_return (JObj
            [(''success'', JBool True),
             (''transactionHash'', JStr hash),
             (''ethReceived'',
                JStr (formatUnits L (if 0 < ethReceived then ethReceived else 0) 18))]))))))))))))"

definition sellToken_catch :: "string \<Rightarrow> json" where
  "sellToken_catch msg =
     (if strIncludes msg ''insufficient funds'' \<or> strIncludes msg ''exceeds the balance'' then
        failure ''Insufficient funds for gas. Add ETH to your wallet.''
      else if strIncludes msg ''No tokens to sell'' then failure ''No tokens to sell.''
      else if strIncludes msg ''No route found'' then
        failure ''No liquidity found for this token yet.''
      else failure (''Sell failed: '' @ (if msg \<noteq> [] then msg else ''Check token address'')))"

text \<open>\<^verbatim>\<open>sellToken(encryptedPrivateKey, tokenAddress, amount)\<close> of the trade service.\<close>

definition sellToken :: "lib \<Rightarrow> trade_env \<Rightarrow> json \<Rightarrow> string \<Rightarrow> string \<Rightarrow> (call, json) io" where
  "sellToken L env encryptedPrivateKey tokenAddress amountArg =
     io_catch
       (io_bind (io_lift (accountOfKey L encryptedPrivateKey)) (\<lambda>address.
        sell_steps L env (JStr tokenAddress) (JStr amountArg) address))
       (\<lambda>msg. io_return (sellToken_catch msg))"

record sell_request =
  sell_method :: string
  sell_sessionId :: json
  sell_tokenAddress :: json
  sell_amount :: json

definition sell_catch :: "string \<Rightarrow> json" where
  "sell_catch msg =
     (if strIncludes msg ''insufficient funds'' then failure ''Insufficient gas. Add ETH.''
      else if strIncludes msg ''No route found'' then failure ''No liquidity found.''
      else failure (if msg \<noteq> [] then msg else ''Sell failed''))"

text \<open>The sell handler (serverless); \<^verbatim>\<open>res.json(x)\<close> replies with status 200.\<close>

definition sell_handler :: "lib \<Rightarrow> trade_env \<Rightarrow> sell_request \<Rightarrow> (call, reply) io" where
  "sell_handler L env req =
     (if sell_method req = ''OPTIONS'' then
        io_return \<lparr>reply_status = 200, payload = JUndefined\<rparr>
      else if sell_method req \<noteq> ''POST'' then io_return (jsonError 405 ''Method not allowed'')
      else if \<not> truthy (sell_tokenAddress req) then
        io_return (jsonError 400 ''Token address required'')
      else
        io_catch
          (io_bind (io_call (SqlSelectWallet (sell_sessionId req)) (walletRow_r env)) (\<lambda>row.
           if \<not> truthy (optProp row ''encrypted_private_key'') then
             io_return (jsonError 400 ''No wallet found. Register first!'')
           else
             io_bind (io_lift (accountOfKey L (optProp row ''encrypted_private_key'')))
               (\<lambda>address.
             io_bind (sell_steps L env (sell_tokenAddress req) (sell_amount req) address)
               (\<lambda>result.
             io_return \<lparr>reply_status = 200, payload = result\<rparr>))))
          (\<lambda>msg. io_return \<lparr>reply_status = 200, payload = sell_catch msg\<rparr>))"

section \<open>The exchange clients\<close>


subsection \<open>MEXC (server/mexc-api.ts and the route /api/mexc/buy)\<close>









subsection \<open>OKX (server/okx-api.ts)\<close>











section \<open>Notions used to state the properties\<close>

subsection \<open>Providers of the swap routing\<close>

datatype provider = Kyberswap | Odos | ParaSwap | OneInch

definition priority :: "provider list" where
  "priority = [Kyberswap, Odos, ParaSwap, OneInch]"




text \<open>One provider alone: its block of \<^verbatim>\<open>getSwapQuote\<close> with its \<^verbatim>\<open>catch\<close>.\<close>

fun attempt :: "aggregators \<Rightarrow> string \<Rightarrow> provider \<Rightarrow> (call, swapData option) io" where
  "attempt net sellAmount Kyberswap = logged (tryKyberswap net sellAmount)"
| "attempt net sellAmount Odos = logged (tryOdos net)"
| "attempt net sellAmount ParaSwap = logged (tryParaswap net)"
| "attempt net sellAmount OneInch = logged (tryOneInch net)"

declare attempt.simps [simp del]

text \<open>The quote that a provider, asked alone, builds (\<open>None\<close>: no usable quote).\<close>

definition quoteOf :: "aggregators \<Rightarrow> string \<Rightarrow> provider \<Rightarrow> swapData option" where
  "quoteOf net sellAmount p =
     (case fst (run (attempt net sellAmount p)) of Inl e \<Rightarrow> None | Inr r \<Rightarrow> r)"

text \<open>The requests it makes for that.\<close>

definition callsOf :: "aggregators \<Rightarrow> string \<Rightarrow> provider \<Rightarrow> call list" where
  "callsOf net sellAmount p = snd (run (attempt net sellAmount p))"

text \<open>A computation that only appends to the trace, whatever the trace before it.\<close>

definition traced :: "('e, 'a) io \<Rightarrow> bool" where
  "traced m \<longleftrightarrow> (\<forall>tr. m tr = (fst (m []), tr @ snd (m [])))"

text \<open>A computation whose first external call is \<open>c\<close>, whatever happens then.\<close>

definition firstCall :: "'e \<Rightarrow> ('e, 'a) io \<Rightarrow> bool" where
  "firstCall c m \<longleftrightarrow> (\<forall>tr. \<exists>rest. snd (m tr) = tr @ c # rest)"

text \<open>Calls to the aggregator endpoints and to the transaction-submission interface.\<close>

fun isFetch :: "call \<Rightarrow> bool" where
  "isFetch (Fetch e) = True"
| "isFetch _ = False"

fun isSubmission :: "call \<Rightarrow> bool" where
  "isSubmission (SendTransaction to d v) = True"
| "isSubmission (WriteContract a f x v) = True"
| "isSubmission _ = False"

subsection \<open>The order of a sell\<close>

fun isSwap :: "call \<Rightarrow> bool" where
  "isSwap (SendTransaction to d v) = True"
| "isSwap _ = False"

fun approvedSpender :: "call \<Rightarrow> json option" where
  "approvedSpender (WriteContract t f spender a) =
     (if f = ''approve'' then Some spender else None)"
| "approvedSpender _ = None"

fun swapTarget :: "call \<Rightarrow> json option" where
  "swapTarget (SendTransaction to d v) = Some to"
| "swapTarget _ = None"

fun waitedFor :: "call \<Rightarrow> string option" where
  "waitedFor (WaitForTransactionReceipt h) = Some h"
| "waitedFor _ = None"

fun isGetBalance :: "call \<Rightarrow> bool" where
  "isGetBalance (GetBalance a) = True"
| "isGetBalance _ = False"

text \<open>
  \<open>swapAfterApproval h tr\<close>: the only swap transaction of the trace comes right
  after the approval of its target as spender, the wait for the receipt of the
  transaction \<open>h\<close>, and one read of the native balance.
\<close>

fun swapAfterApproval :: "string \<Rightarrow> call list \<Rightarrow> bool" where
  "swapAfterApproval h [] = True"
| "swapAfterApproval h (c # rest) =
     (if isSwap c then False
      else if approvedSpender c \<noteq> None then
        (case rest of
           w # g # s # rest' \<Rightarrow>
             waitedFor w = Some h \<and> isGetBalance g \<and> swapTarget s = approvedSpender c \<and>
             \<not> list_ex isSwap rest'
         | _ \<Rightarrow> \<not> list_ex isSwap rest)
      else swapAfterApproval h rest)"

text \<open>
  Either no swap is sent, or the approval was submitted, the wait for its receipt
  returned, and the swap follows as above.
\<close>

definition sellOrdered :: "trade_env \<Rightarrow> call list \<Rightarrow> bool" where
  "sellOrdered env tr \<longleftrightarrow>
     \<not> list_ex isSwap tr \<or>
     (\<exists>h. approve_r env = Inr h \<and> waitApprove_r env = Inr () \<and> swapAfterApproval h tr)"

text \<open>The trace ends with: balance read, swap, wait for its receipt, balance read.\<close>

definition endsWithDelta :: "call list \<Rightarrow> bool" where
  "endsWithDelta tr =
     (case rev tr of
        g2 # w # s # g1 # _ \<Rightarrow> isGetBalance g2 \<and> waitedFor w \<noteq> None \<and> isSwap s \<and> g1 = g2
      | _ \<Rightarrow> False)"

text \<open>
  A successful result reports the native balance read after the swap minus the one read
  just before it, or zero when that is negative.
\<close>

definition reportsDelta :: "lib \<Rightarrow> trade_env \<Rightarrow> json \<Rightarrow> call list \<Rightarrow> bool" where
  "reportsDelta L env res tr \<longleftrightarrow>
     (optProp res ''success'' = JBool True \<longrightarrow>
        (\<exists>before after.
           ethBefore_r env = Inr before \<and> ethAfter_r env = Inr after \<and>
           optProp res ''ethReceived'' = JStr (formatUnits L (max 0 (after - before)) 18) \<and>
           endsWithDelta tr))"

subsection \<open>Bracket orders\<close>





subsection \<open>Example environments\<close>

definition unreachable :: "string + response" where
  "unreachable = Inl ''fetch failed''"

definition answers :: "json \<Rightarrow> string + response" where
  "answers j = Inr \<lparr>ok = True, status = 200, body = Inr j\<rparr>"


text \<open>Every aggregator endpoint is unreachable.\<close>

definition net_down :: aggregators where
  "net_down =
     \<lparr>kyberRoutes_r = unreachable, kyberBuild_r = unreachable, odosQuote_r = unreachable,
      odosAssemble_r = unreachable, paraswapPrices_r = unreachable,
      paraswapTransactions_r = unreachable, oneInchSwap_r = unreachable\<rparr>"

text \<open>Library functions on the few arguments the examples use.\<close>

definition lib_ex :: lib where
  "lib_ex =
     \<lparr>parseEther = (\<lambda>j. if j = JStr ''0.01'' then Inr 10000000000000000
                          else if j = JStr ''0.001'' then Inr 1000000000000000
                          else if j = JStr ''0.0005'' then Inr 500000000000000
                          else Inl ''InvalidDecimalNumberError''),
      formatUnits = (\<lambda>v d. showInt v @ ''e-'' @ showNat d),
      bigIntOfJson = (\<lambda>j. if j = JStr ''10000000000000000'' then Inr 10000000000000000
                            else Inl ''SyntaxError: Cannot convert to a BigInt''),
      encodeDevbuy = (\<lambda>t a. case t of JStr s \<Rightarrow> Inr (JStr (''buy('' @ s @ '','' @ a @ '',0)''))
                                | _ \<Rightarrow> Inl ''InvalidAddressError''),
      accountOfKey = (\<lambda>k. if k = JStr ''gcm:00:11'' then Inr ''0xF00D''
                            else Inl ''Invalid key''),
      parseFloat = (\<lambda>j. if j = JStr ''0'' then Some 0
                          else if j = JStr ''1000'' then Some 1000 else None),
      stringOf = (\<lambda>j. case j of JStr s \<Rightarrow> s | _ \<Rightarrow> ''[object Object]'')\<rparr>"

definition WETH_ADDRESS :: string where
  "WETH_ADDRESS = ''0x4200000000000000000000000000000000000006''"

text \<open>A buy of 0.01 ETH of the wrapped-ether token by a registered session.\<close>

definition req_weth :: buy_request where
  "req_weth =
     \<lparr>buy_method = ''POST'', buy_sessionId = JStr ''s1'',
      buy_tokenAddress = JStr WETH_ADDRESS, buy_amountEth = JStr ''0.01''\<rparr>"

text \<open>One ether in the wallet, no aggregator reachable, the chain accepts the devbuy call.\<close>

definition env_devbuy :: buy_env where
  "env_devbuy =
     \<lparr>buy_walletRow_r = Inr (JObj [(''encrypted_private_key'', JStr ''gcm:00:11''),
                                   (''wallet_address'', JStr ''0xF00D'')]),
      buy_getBalance_r = Inr 1000000000000000000,
      buy_net = net_down,
      buy_sendSwap_r = Inl ''unused'',
      buy_sendDevbuy_r = Inr ''0xB0B'',
      buy_waitReceipt_r = Inr (),
      buy_readSymbol_r = Inr (JStr ''WETH''),
      buy_readDecimals_r = Inr 18,
      buy_readBalanceOf_r = Inr 7\<rparr>"

text \<open>The same with 0.005 ETH in the wallet.\<close>

definition env_poor :: buy_env where
  "env_poor = env_devbuy\<lparr>buy_getBalance_r := Inr 5000000000000000\<rparr>"

text \<open>
  The trade service with a route and a built swap, on a chain that rejects the
  submission because the wallet cannot pay for it.
\<close>

definition env_rejected :: trade_env where
  "env_rejected =
     \<lparr>walletRow_r = Inr JUndefined,
      routes_r = answers (JObj [(''data'', JObj [(''routeSummary'', JObj []),
                                                (''routerAddress'', JStr ''0x6131'')])]),
      build_r = answers (JObj [(''data'', JObj [(''data'', JStr ''0xe21f''),
                                               (''routerAddress'', JStr ''0x6131'')])]),
      readDecimals_r = Inr 18,
      readBalanceOf_r = Inr 0,
      approve_r = Inl ''unused'',
      waitApprove_r = Inr (),
      ethBefore_r = Inr 5000000000000000,
      sendSwap_r = Inl ''insufficient funds for gas * price + value'',
      waitSwap_r = Inr (),
      ethAfter_r = Inr 5000000000000000\<rparr>"

text \<open>
  A sell of the whole balance of 1000 token units that goes through: the native balance
  is 0.005 ETH before the swap and 0.007 ETH after it.
\<close>

definition env_sell :: trade_env where
  "env_sell =
     env_rejected\<lparr>walletRow_r := Inr (JObj [(''encrypted_private_key'', JStr ''gcm:00:11'')]),
                   readBalanceOf_r := Inr 1000, approve_r := Inr ''0xA11'',
                   sendSwap_r := Inr ''0x5E11'', ethAfter_r := Inr 7000000000000000\<rparr>"

definition req_sell_all :: sell_request where
  "req_sell_all =
     \<lparr>sell_method = ''POST'', sell_sessionId = JStr ''s1'',
      sell_tokenAddress = JStr ''0xC0FFEE'', sell_amount = JStr ''all''\<rparr>"




section \<open>Properties\<close>

subsection \<open>Traces\<close>

lemma traced_return [simp]: "traced (io_return x)"
  by (simp add: traced_def io_return_def)
lemma traced_throw [simp]: "traced (io_throw x)"
  by (simp add: traced_def io_throw_def)
lemma traced_lift [simp]: "traced (io_lift x)"
  by (simp add: traced_def io_lift_def)
lemma traced_call [simp]: "traced (io_call c x)"
  by (simp add: traced_def io_call_def)

lemma traced_bind [intro!]:
  assumes "traced m" "\<And>x. traced (f x)"
  shows "traced (io_bind m f)"
  unfolding traced_def
proof
  fix tr
  obtain r0 t0 where m0: "m [] = (r0, t0)" by (cases "m []")
  have m: "m tr = (r0, tr @ t0)" using assms(1) m0 unfolding traced_def by (metis fst_conv snd_conv)
  show "io_bind m f tr = (fst (io_bind m f []), tr @ snd (io_bind m f []))"
  proof (cases r0)
    case (Inl e)
    then show ?thesis using m m0 by (simp add: io_bind_def)
  next
    case (Inr x)
    have f1: "f x (tr @ t0) = (fst (f x []), (tr @ t0) @ snd (f x []))"
      using assms(2)[of x] unfolding traced_def by blast
    have f2: "f x t0 = (fst (f x []), t0 @ snd (f x []))"
      using assms(2)[of x] unfolding traced_def by blast
    show ?thesis using m m0 Inr f1 f2 by (simp add: io_bind_def)
  qed
qed

lemma traced_catch [intro!]:
  assumes "traced m" "\<And>x. traced (f x)"
  shows "traced (io_catch m f)"
  unfolding traced_def
proof
  fix tr
  obtain r0 t0 where m0: "m [] = (r0, t0)" by (cases "m []")
  have m: "m tr = (r0, tr @ t0)" using assms(1) m0 unfolding traced_def by (metis fst_conv snd_conv)
  show "io_catch m f tr = (fst (io_catch m f []), tr @ snd (io_catch m f []))"
  proof (cases r0)
    case (Inr e)
    then show ?thesis using m m0 by (simp add: io_catch_def)
  next
    case (Inl x)
    have f1: "f x (tr @ t0) = (fst (f x []), (tr @ t0) @ snd (f x []))"
      using assms(2)[of x] unfolding traced_def by blast
    have f2: "f x t0 = (fst (f x []), t0 @ snd (f x []))"
      using assms(2)[of x] unfolding traced_def by blast
    show ?thesis using m m0 Inl f1 f2 by (simp add: io_catch_def)
  qed
qed

lemma traced_if [intro!]: "(c \<Longrightarrow> traced m) \<Longrightarrow> (\<not> c \<Longrightarrow> traced n) \<Longrightarrow> traced (if c then m else n)"
  by simp

lemma traced_attempt: "traced (attempt net a p)"
  by (cases p)
     (auto simp: attempt.simps logged_def tryKyberswap_def tryOdos_def tryParaswap_def
        tryOneInch_def)


lemma attempt_returns: "\<exists>r. fst (run (attempt net a p)) = Inr r"
  by (cases p)
     (auto simp: attempt.simps run_def logged_def io_catch_def io_return_def
        split: sum.splits prod.splits)


lemma attempt_at: "attempt net a p tr = (Inr (quoteOf net a p), tr @ callsOf net a p)"
proof -
  obtain r where r: "fst (run (attempt net a p)) = Inr r" using attempt_returns by blast
  have "attempt net a p tr = (fst (attempt net a p []), tr @ snd (attempt net a p []))"
    using traced_attempt unfolding traced_def by blast
  then show ?thesis using r by (simp add: quoteOf_def callsOf_def run_def)
qed

lemma getSwapQuote_attempts:
  "getSwapQuote net b a t =
     io_bind (attempt net a Kyberswap) (\<lambda>r1.
     case r1 of Some q \<Rightarrow> io_return (Some q) | None \<Rightarrow>
     io_bind (attempt net a Odos) (\<lambda>r2.
     case r2 of Some q \<Rightarrow> io_return (Some q) | None \<Rightarrow>
     io_bind (attempt net a ParaSwap) (\<lambda>r3.
     case r3 of Some q \<Rightarrow> io_return (Some q) | None \<Rightarrow>
     io_bind (attempt net a OneInch) (\<lambda>r4.
     case r4 of Some q \<Rightarrow> io_return (Some q) | None \<Rightarrow>
     io_return None))))"
  unfolding getSwapQuote_def attempt.simps by (rule refl)



lemma getSwapQuote_run:
  "run (getSwapQuote net b a t) =
     (case quoteOf net a Kyberswap of
        Some q \<Rightarrow> (Inr (Some q), callsOf net a Kyberswap)
      | None \<Rightarrow>
     (case quoteOf net a Odos of
        Some q \<Rightarrow> (Inr (Some q), callsOf net a Kyberswap @ callsOf net a Odos)
      | None \<Rightarrow>
     (case quoteOf net a ParaSwap of
        Some q \<Rightarrow> (Inr (Some q), callsOf net a Kyberswap @ callsOf net a Odos @ callsOf net a ParaSwap)
      | None \<Rightarrow>
        (Inr (quoteOf net a OneInch),
         callsOf net a Kyberswap @ callsOf net a Odos @ callsOf net a ParaSwap @ callsOf net a OneInch))))"
  by (simp add: getSwapQuote_attempts run_def io_bind_def attempt_at io_return_def
      split: option.splits)



lemma traced_case_option [intro!]:
  "traced m \<Longrightarrow> (\<And>q. traced (f q)) \<Longrightarrow> traced (case x of None \<Rightarrow> m | Some q \<Rightarrow> f q)"
  by (cases x) simp_all

lemma traced_case_sum [intro!]:
  "(\<And>a. traced (f a)) \<Longrightarrow> (\<And>b. traced (g b)) \<Longrightarrow> traced (case x of Inl a \<Rightarrow> f a | Inr b \<Rightarrow> g b)"
  by (cases x) simp_all

lemma traced_case_prod [intro!]:
  "(\<And>a b. traced (f a b)) \<Longrightarrow> traced (case x of (a, b) \<Rightarrow> f a b)"
  by (cases x) simp_all

lemma traced_getSwapQuote: "traced (getSwapQuote net b a t)"
  unfolding getSwapQuote_attempts by (intro traced_bind traced_attempt traced_case_option traced_return)

lemma traced_buy_submit: "traced (buy_submit L env req address amountIn sd)"
  unfolding buy_submit_def by (intro traced_bind traced_catch traced_case_option traced_return traced_lift traced_call)

lemma traced_buy_report: "traced (buy_report L env req address hash ty)"
  unfolding buy_report_def by (intro traced_bind traced_catch traced_case_prod traced_return traced_lift traced_call)

lemma tracedD: "traced m \<Longrightarrow> m tr = (fst (run m), tr @ snd (run m))"
  unfolding traced_def run_def by blast

lemma io_catch_app:
  "io_catch m h tr = (case m tr of (Inl e, t) \<Rightarrow> h e t | (Inr x, t) \<Rightarrow> (Inr x, t))"
  by (simp add: io_catch_def)

lemma io_bind_app:
  "io_bind m f tr = (case m tr of (Inl e, t) \<Rightarrow> (Inl e, t) | (Inr x, t) \<Rightarrow> f x t)"
  by (simp add: io_bind_def)

lemma io_return_app: "io_return x tr = (Inr x, tr)"
  by (simp add: io_return_def)

lemma io_throw_app: "io_throw e tr = (Inl e, tr)"
  by (simp add: io_throw_def)

lemma io_lift_app: "io_lift r tr = (r, tr)"
  by (simp add: io_lift_def)

lemma io_call_app: "io_call c r tr = (r, tr @ [c])"
  by (simp add: io_call_def)

lemmas io_app = io_catch_app io_bind_app io_return_app io_throw_app io_lift_app io_call_app

lemma firstCall_call: "firstCall c (io_call c r)"
  by (simp add: firstCall_def io_call_def)

lemma firstCall_bind:
  assumes "firstCall c m" "\<And>x. traced (f x)"
  shows "firstCall c (io_bind m f)"
  unfolding firstCall_def
proof
  fix tr
  obtain rest where m: "snd (m tr) = tr @ c # rest" using assms(1) unfolding firstCall_def by blast
  obtain r0 where r0: "m tr = (r0, tr @ c # rest)" using m by (cases "m tr") simp
  show "\<exists>rest. snd (io_bind m f tr) = tr @ c # rest"
  proof (cases r0)
    case (Inl e)
    then show ?thesis using r0 by (simp add: io_bind_def)
  next
    case (Inr x)
    have "f x (tr @ c # rest) = (fst (run (f x)), (tr @ c # rest) @ snd (run (f x)))"
      using assms(2) tracedD by blast
    then show ?thesis using r0 Inr by (simp add: io_bind_def)
  qed
qed

lemma firstCall_catch:
  assumes "firstCall c m" "\<And>x. traced (f x)"
  shows "firstCall c (io_catch m f)"
  unfolding firstCall_def
proof
  fix tr
  obtain rest where m: "snd (m tr) = tr @ c # rest" using assms(1) unfolding firstCall_def by blast
  obtain r0 where r0: "m tr = (r0, tr @ c # rest)" using m by (cases "m tr") simp
  show "\<exists>rest. snd (io_catch m f tr) = tr @ c # rest"
  proof (cases r0)
    case (Inr e)
    then show ?thesis using r0 by (simp add: io_catch_def)
  next
    case (Inl x)
    have "f x (tr @ c # rest) = (fst (run (f x)), (tr @ c # rest) @ snd (run (f x)))"
      using assms(2) tracedD by blast
    then show ?thesis using r0 Inl by (simp add: io_catch_def)
  qed
qed

lemma firstCall_lift: "r = Inr x \<Longrightarrow> firstCall c (f x) \<Longrightarrow> firstCall c (io_bind (io_lift r) f)"
  by (simp add: firstCall_def io_app)

lemma traced_kyberSwapQuote: "traced (kyberSwapQuote env)"
  unfolding kyberSwapQuote_def
  by (intro traced_bind traced_if traced_return traced_lift traced_call traced_throw)

lemma firstCall_kyberSwapQuote: "firstCall (Fetch KyberRoutes) (kyberSwapQuote env)"
  unfolding kyberSwapQuote_def
  by (intro firstCall_bind firstCall_call traced_bind traced_if traced_return traced_lift
      traced_call traced_throw)

lemma firstCall_buyToken:
  assumes "accountOfKey L key = Inr address" "parseEther L (JStr amt) = Inr amountIn"
  shows "firstCall (Fetch KyberRoutes) (buyToken L env key tkn amt)"
  unfolding buyToken_def
  by (intro firstCall_catch firstCall_lift[OF assms(1)] firstCall_lift[OF assms(2)]
      firstCall_bind firstCall_kyberSwapQuote traced_bind traced_return traced_lift traced_call)

lemma showInt_example: "showInt 10000000000000000 = ''10000000000000000''"
  by code_simp

subsection \<open>Buying\<close>

text \<open>
  C2 (as amended). In the buy handler (api/trade/buy.ts), when the balance read from the
  chain is below the amount plus the gas buffer \<^verbatim>\<open>parseEther("0.0005")\<close>, the reply is
  the 400 error "Insufficient ETH ..." and the only external calls made are the wallet
  lookup and the balance read: no aggregator endpoint is requested and nothing is
  submitted. \<^verbatim>\<open>buyToken\<close> of the trade service has no such check: whenever the key
  and the amount parse, its first call is the Kyberswap route request.
\<close>

theorem buy_insufficient_funds:
  "buy_method req = ''POST'' \<Longrightarrow> truthy (buy_tokenAddress req) \<Longrightarrow>
   buy_walletRow_r env = Inr row \<Longrightarrow> truthy (optProp row ''encrypted_private_key'') \<Longrightarrow>
   accountOfKey L (optProp row ''encrypted_private_key'') = Inr address \<Longrightarrow>
   buy_getBalance_r env = Inr balance \<Longrightarrow>
   parseEther L (orElse (buy_amountEth req) (JStr ''0.001'')) = Inr amountIn \<Longrightarrow>
   parseEther L (JStr ''0.0005'') = Inr gasBuffer \<Longrightarrow>
   balance < amountIn + gasBuffer \<Longrightarrow>
     run (buy_handler L env req) =
       (Inr (jsonError 400
          (''Insufficient ETH. You have '' @ formatUnits L balance 18 @ '' ETH but need '' @
           stringOf L (orElse (buy_amountEth req) (JStr ''0.001'')) @ '' ETH + gas'')),
        [SqlSelectWallet (buy_sessionId req), GetBalance address]) \<and>
     filter isFetch (snd (run (buy_handler L env req))) = [] \<and>
     filter isSubmission (snd (run (buy_handler L env req))) = [] \<and>
     (\<forall>tenv key tkn amt a v.
        accountOfKey L key = Inr a \<and> parseEther L (JStr amt) = Inr v \<longrightarrow>
        (\<exists>rest. snd (run (buyToken L tenv key tkn amt)) = Fetch KyberRoutes # rest))"
proof -
  assume a: "buy_method req = ''POST''" "truthy (buy_tokenAddress req)"
    "buy_walletRow_r env = Inr row" "truthy (optProp row ''encrypted_private_key'')"
    "accountOfKey L (optProp row ''encrypted_private_key'') = Inr address"
    "buy_getBalance_r env = Inr balance"
    "parseEther L (orElse (buy_amountEth req) (JStr ''0.001'')) = Inr amountIn"
    "parseEther L (JStr ''0.0005'') = Inr gasBuffer"
    "balance < amountIn + gasBuffer"
  have r: "run (buy_handler L env req) =
       (Inr (jsonError 400
          (''Insufficient ETH. You have '' @ formatUnits L balance 18 @ '' ETH but need '' @
           stringOf L (orElse (buy_amountEth req) (JStr ''0.001'')) @ '' ETH + gas'')),
        [SqlSelectWallet (buy_sessionId req), GetBalance address])"
    using a
    by (simp add: run_def buy_handler_def buy_body_def io_app)
  have b: "\<exists>rest. snd (run (buyToken L tenv key tkn amt)) = Fetch KyberRoutes # rest"
    if "accountOfKey L key = Inr a" "parseEther L (JStr amt) = Inr v" for tenv key tkn amt a v
    using firstCall_buyToken[OF that, of tenv tkn] unfolding firstCall_def run_def
    by (metis append_Nil)
  show ?thesis using r b by simp
qed

theorem buy_insufficient_funds_witness:
  "snd (run (buy_handler lib_ex env_poor req_weth)) =
     [SqlSelectWallet (JStr ''s1''), GetBalance ''0xF00D''] \<and>
   map_sum id reply_status (fst (run (buy_handler lib_ex env_poor req_weth))) = Inr 400 \<and>
   (\<exists>rest. snd (run (buyToken lib_ex env_rejected (JStr ''gcm:00:11'') ''0xC0FFEE'' ''0.01'')) =
      Fetch KyberRoutes # rest)"
  using buy_insufficient_funds [of req_weth env_poor
      "JObj [(''encrypted_private_key'', JStr ''gcm:00:11''), (''wallet_address'', JStr ''0xF00D'')]"
      lib_ex "''0xF00D''" 5000000000000000 10000000000000000 500000000000000]
  by (simp add: req_weth_def env_poor_def env_devbuy_def lib_ex_def optProp_def orElse_def
      WETH_ADDRESS_def jsonError_def)

text \<open>
  The claim as stated fails for \<^verbatim>\<open>buyToken\<close>: on a chain that rejects the
  submission for insufficient funds, the result is the insufficient-funds failure, after
  two aggregator requests and one call of the submission interface.
\<close>

theorem buyToken_calls_before_insufficient_funds:
  "run (buyToken lib_ex env_rejected (JStr ''gcm:00:11'') ''0xC0FFEE'' ''0.01'') =
     (Inr (failure ''Insufficient funds. Add more ETH to your wallet.''),
      [Fetch KyberRoutes, Fetch KyberBuild,
       SendTransaction (JStr ''0x6131'') (JStr ''0xe21f'') 10000000000000000])"
  by code_simp

lemma firstCall_buy_report:
  "firstCall (WaitForTransactionReceipt hash) (buy_report L env req address hash ty)"
  unfolding buy_report_def
  by (intro firstCall_bind firstCall_call traced_bind traced_catch traced_case_prod
      traced_return traced_lift traced_call)

lemma getSwapQuote_none:
  assumes "\<forall>p. quoteOf net a p = None"
  shows "getSwapQuote net b a t tr = (Inr None, tr @ concat (map (callsOf net a) priority))"
proof -
  have "run (getSwapQuote net b a t) = (Inr None, concat (map (callsOf net a) priority))"
    using assms by (simp add: getSwapQuote_run priority_def)
  then show ?thesis using tracedD[OF traced_getSwapQuote, of net b a t tr] by simp
qed

text \<open>
  C6 (as amended). When the balance suffices and no provider builds a quote, the buy
  handler always falls back to the devbuy call, whatever the token: it sends
  \<^verbatim>\<open>buy(tokenAddress, account, 0)\<close> to the devbuy contract with the amount as
  value. If encoding or sending that call throws, the reply is the 400 error
  "Token not tradeable ..." with the clanker.world link of the token; if the call is
  accepted, the handler goes on to wait for its receipt.
\<close>

theorem buy_devbuy_fallback:
  "buy_method req = ''POST'' \<Longrightarrow> truthy (buy_tokenAddress req) \<Longrightarrow>
   buy_walletRow_r env = Inr row \<Longrightarrow> truthy (optProp row ''encrypted_private_key'') \<Longrightarrow>
   accountOfKey L (optProp row ''encrypted_private_key'') = Inr address \<Longrightarrow>
   buy_getBalance_r env = Inr balance \<Longrightarrow>
   parseEther L (orElse (buy_amountEth req) (JStr ''0.001'')) = Inr amountIn \<Longrightarrow>
   parseEther L (JStr ''0.0005'') = Inr gasBuffer \<Longrightarrow>
   \<not> balance < amountIn + gasBuffer \<Longrightarrow>
   \<forall>p. quoteOf (buy_net env) (showInt amountIn) p = None \<Longrightarrow>
     (let before = [SqlSelectWallet (buy_sessionId req), GetBalance address] @
                   concat (map (callsOf (buy_net env) (showInt amountIn)) priority)
      in case encodeDevbuy L (buy_tokenAddress req) address of
           Inl e \<Rightarrow>
             run (buy_handler L env req) =
               (Inr (notTradeable L (buy_tokenAddress req)), before)
         | Inr buyData \<Rightarrow>
             (case buy_sendDevbuy_r env of
                Inl e \<Rightarrow>
                  run (buy_handler L env req) =
                    (Inr (notTradeable L (buy_tokenAddress req)),
                     before @ [SendTransaction (JStr CLANKER_DEVBUY) buyData amountIn])
              | Inr hash \<Rightarrow>
                  (\<exists>rest. snd (run (buy_handler L env req)) =
                     before @ [SendTransaction (JStr CLANKER_DEVBUY) buyData amountIn,
                               WaitForTransactionReceipt hash] @ rest)))"
proof -
  assume a: "buy_method req = ''POST''" "truthy (buy_tokenAddress req)"
    "buy_walletRow_r env = Inr row" "truthy (optProp row ''encrypted_private_key'')"
    "accountOfKey L (optProp row ''encrypted_private_key'') = Inr address"
    "buy_getBalance_r env = Inr balance"
    "parseEther L (orElse (buy_amountEth req) (JStr ''0.001'')) = Inr amountIn"
    "parseEther L (JStr ''0.0005'') = Inr gasBuffer"
    "\<not> balance < amountIn + gasBuffer"
  assume q: "\<forall>p. quoteOf (buy_net env) (showInt amountIn) p = None"
  define before where "before = [SqlSelectWallet (buy_sessionId req), GetBalance address] @
                   concat (map (callsOf (buy_net env) (showInt amountIn)) priority)"
  have h: "run (buy_handler L env req) =
      (case buy_submit L env req address amountIn None before of
         (Inl e, t) \<Rightarrow> (Inr (buy_catch e), t)
       | (Inr (Inl early), t) \<Rightarrow> (Inr early, t)
       | (Inr (Inr (hash, ty)), t) \<Rightarrow>
           (case buy_report L env req address hash ty t of
              (Inl e, t') \<Rightarrow> (Inr (buy_catch e), t')
            | (Inr x, t') \<Rightarrow> (Inr x, t')))"
    using a
    by (simp add: run_def buy_handler_def buy_body_def io_app getSwapQuote_none[OF q] before_def
        split: prod.splits sum.splits)
  show ?thesis
  proof (cases "encodeDevbuy L (buy_tokenAddress req) address")
    case (Inl e)
    then show ?thesis unfolding Let_def before_def[symmetric]
      by (simp add: h buy_submit_def io_app)
  next
    case enc: (Inr buyData)
    show ?thesis
    proof (cases "buy_sendDevbuy_r env")
      case (Inl e)
      then show ?thesis using enc unfolding Let_def before_def[symmetric]
        by (simp add: h buy_submit_def io_app)
    next
      case (Inr hash)
      let ?t = "before @ [SendTransaction (JStr CLANKER_DEVBUY) buyData amountIn]"
      obtain rest where rest: "snd (buy_report L env req address hash ''clanker'' ?t) =
          ?t @ WaitForTransactionReceipt hash # rest"
        using firstCall_buy_report[of hash L env req address "''clanker''"]
        unfolding firstCall_def by blast
      obtain r' where r': "buy_report L env req address hash ''clanker'' ?t =
          (r', ?t @ WaitForTransactionReceipt hash # rest)"
        using rest by (cases "buy_report L env req address hash ''clanker'' ?t") simp
      have "snd (run (buy_handler L env req)) = ?t @ WaitForTransactionReceipt hash # rest"
        using enc Inr r'
        by (cases r') (simp_all add: h buy_submit_def io_app)
      then show ?thesis using enc Inr unfolding Let_def before_def[symmetric] by simp
    qed
  qed
qed

theorem buy_devbuy_fallback_witness:
  "\<exists>rest. snd (run (buy_handler lib_ex env_devbuy req_weth)) =
     ([SqlSelectWallet (JStr ''s1''), GetBalance ''0xF00D''] @
      concat (map (callsOf net_down ''10000000000000000'') priority)) @
     [SendTransaction (JStr CLANKER_DEVBUY)
        (JStr ''buy(0x4200000000000000000000000000000000000006,0xF00D,0)'') 10000000000000000,
      WaitForTransactionReceipt ''0xB0B''] @ rest"
proof -
  have q: "\<forall>p. quoteOf net_down (showInt 10000000000000000) p = None"
  proof
    fix p show "quoteOf net_down (showInt 10000000000000000) p = None"
      by (cases p)
         (simp_all add: quoteOf_def run_def attempt.simps logged_def tryKyberswap_def
            tryOdos_def tryParaswap_def tryOneInch_def net_down_def unreachable_def io_app)
  qed
  show ?thesis
    using buy_devbuy_fallback [of req_weth env_devbuy
      "JObj [(''encrypted_private_key'', JStr ''gcm:00:11''), (''wallet_address'', JStr ''0xF00D'')]"
      lib_ex "''0xF00D''" 1000000000000000000 10000000000000000 500000000000000] q
    by (simp add: req_weth_def env_devbuy_def lib_ex_def optProp_def orElse_def
        WETH_ADDRESS_def showInt_example)
qed

text \<open>
  The claim as stated fails: for the wrapped-ether token, which no launch venue
  deployed, with no aggregator reachable and a chain that accepts the call, the handler
  submits the devbuy transaction and replies with success.
\<close>

theorem buy_devbuy_any_token:
  "run (buy_handler lib_ex env_devbuy req_weth) =
   (Inr \<lparr>reply_status = 200, payload = JObj
       [(''success'', JBool True), (''transactionHash'', JStr ''0xB0B''),
        (''tokensReceived'', JStr ''7e-18''), (''symbol'', JStr ''WETH''),
        (''via'', JStr ''clanker'')]\<rparr>,
    [SqlSelectWallet (JStr ''s1''), GetBalance ''0xF00D'', Fetch KyberRoutes,
     Fetch OdosQuote, Fetch ParaswapPrices, Fetch OneInchSwap,
     SendTransaction (JStr CLANKER_DEVBUY)
       (JStr ''buy(0x4200000000000000000000000000000000000006,0xF00D,0)'') 10000000000000000,
     WaitForTransactionReceipt ''0xB0B'',
     ReadContract (JStr WETH_ADDRESS) ''symbol'',
     ReadContract (JStr WETH_ADDRESS) ''decimals'',
     ReadContract (JStr WETH_ADDRESS) ''balanceOf''])"
  by code_simp

subsection \<open>Selling\<close>

lemma optProp_JObj [simp]:
  "optProp (JObj kvs) k = (case map_of kvs k of None \<Rightarrow> JUndefined | Some v \<Rightarrow> v)"
  by (simp add: optProp_def)

lemma optProp_JUndefined [simp]: "optProp JUndefined k = JUndefined"
  by (simp add: optProp_def)

lemma failure_success [simp]: "optProp (failure m) ''success'' = JBool False"
  by (simp add: failure_def)

lemma sell_steps_props:
  assumes "tr0 = [] \<or> tr0 = [SqlSelectWallet s]"
  shows "case sell_steps L env tkn amt addr tr0 of (r, tr) \<Rightarrow>
     sellOrdered env tr \<and> (\<forall>res. r = Inr res \<longrightarrow> reportsDelta L env res tr)"
  using assms
  unfolding sell_steps_def kyberSwapQuote_def sellOrdered_def reportsDelta_def
  by (elim disjE)
     (simp_all add: io_app Let_def endsWithDelta_def split: sum.split)

lemma sellToken_catch_success [simp]: "optProp (sellToken_catch m) ''success'' = JBool False"
  by (simp add: sellToken_catch_def)

lemma sell_catch_success [simp]: "optProp (sell_catch m) ''success'' = JBool False"
  by (simp add: sell_catch_def)

lemma jsonError_success [simp]: "optProp (payload (jsonError n m)) ''success'' = JUndefined"
  by (simp add: jsonError_def)

text \<open>
  C7. In every run of \<^verbatim>\<open>sellToken\<close> and of the sell handler, a swap transaction
  is sent only right after the approval of the swap target as spender was submitted,
  the wait for the receipt of that approval returned, and the native balance was read;
  and a successful result reports the native balance read after the swap's receipt minus
  the one read just before the swap, replaced by zero when negative (formatted by
  \<^verbatim>\<open>formatEther\<close>).
\<close>

theorem sell_approval_precedes_swap:
  "(case run (sellToken L env key tokenAddress amt) of
      (r, tr) \<Rightarrow> sellOrdered env tr \<and> (\<forall>res. r = Inr res \<longrightarrow> reportsDelta L env res tr)) \<and>
   (case run (sell_handler L env req) of
      (r, tr) \<Rightarrow> sellOrdered env tr \<and>
                 (\<forall>rep. r = Inr rep \<longrightarrow> reportsDelta L env (payload rep) tr))"
proof
  show "case run (sellToken L env key tokenAddress amt) of
      (r, tr) \<Rightarrow> sellOrdered env tr \<and> (\<forall>res. r = Inr res \<longrightarrow> reportsDelta L env res tr)"
  proof (cases "accountOfKey L key")
    case (Inl e)
    then show ?thesis
      by (simp add: run_def sellToken_def io_app sellOrdered_def reportsDelta_def)
  next
    case (Inr address)
    obtain r' tr' where s: "sell_steps L env (JStr tokenAddress) (JStr amt) address [] = (r', tr')"
      by (cases "sell_steps L env (JStr tokenAddress) (JStr amt) address []")
    have p: "sellOrdered env tr' \<and> (\<forall>res. r' = Inr res \<longrightarrow> reportsDelta L env res tr')"
      using sell_steps_props[of "[]" _ env L "JStr tokenAddress" "JStr amt" address] s by simp
    show ?thesis using Inr s p
      by (cases r') (simp_all add: run_def sellToken_def io_app reportsDelta_def)
  qed
next
  show "case run (sell_handler L env req) of
      (r, tr) \<Rightarrow> sellOrdered env tr \<and>
                 (\<forall>rep. r = Inr rep \<longrightarrow> reportsDelta L env (payload rep) tr)"
  proof (cases "sell_method req = ''POST'' \<and> truthy (sell_tokenAddress req)")
    case False
    then show ?thesis
      by (auto simp: run_def sell_handler_def io_app sellOrdered_def reportsDelta_def)
  next
    case True
    show ?thesis
    proof (cases "walletRow_r env")
      case (Inl e)
      then show ?thesis using True
        by (simp add: run_def sell_handler_def io_app sellOrdered_def reportsDelta_def)
    next
      case row: (Inr row)
      show ?thesis
      proof (cases "truthy (optProp row ''encrypted_private_key'')")
        case False
        then show ?thesis using True row
          by (simp add: run_def sell_handler_def io_app sellOrdered_def reportsDelta_def)
      next
        case key: True
        show ?thesis
        proof (cases "accountOfKey L (optProp row ''encrypted_private_key'')")
          case (Inl e)
          then show ?thesis using True row key
            by (simp add: run_def sell_handler_def io_app sellOrdered_def reportsDelta_def)
        next
          case (Inr address)
          let ?t = "[SqlSelectWallet (sell_sessionId req)]"
          obtain r' tr' where s:
            "sell_steps L env (sell_tokenAddress req) (sell_amount req) address ?t = (r', tr')"
            by (cases "sell_steps L env (sell_tokenAddress req) (sell_amount req) address ?t")
          have p: "sellOrdered env tr' \<and> (\<forall>res. r' = Inr res \<longrightarrow> reportsDelta L env res tr')"
            using sell_steps_props[of ?t "sell_sessionId req" env L "sell_tokenAddress req"
                "sell_amount req" address] s by simp
          show ?thesis using True row key Inr s p
            by (cases r') (simp_all add: run_def sell_handler_def io_app reportsDelta_def)
        qed
      qed
    qed
  qed
qed

theorem sell_approval_precedes_swap_witness:
  "run (sellToken lib_ex env_sell (JStr ''gcm:00:11'') ''0xC0FFEE'' ''all'') =
     (Inr (JObj [(''success'', JBool True), (''transactionHash'', JStr ''0x5E11''),
             (''ethReceived'', JStr ''2000000000000000e-18'')]),
     [ReadContract (JStr ''0xC0FFEE'') ''decimals'',
      ReadContract (JStr ''0xC0FFEE'') ''balanceOf'', Fetch KyberRoutes, Fetch KyberBuild,
      WriteContract (JStr ''0xC0FFEE'') ''approve'' (JStr ''0x6131'') 1000,
      WaitForTransactionReceipt ''0xA11'', GetBalance ''0xF00D'',
      SendTransaction (JStr ''0x6131'') (JStr ''0xe21f'') 0,
      WaitForTransactionReceipt ''0x5E11'', GetBalance ''0xF00D'']) \<and>
   sellOrdered env_sell
     [ReadContract (JStr ''0xC0FFEE'') ''decimals'',
      ReadContract (JStr ''0xC0FFEE'') ''balanceOf'', Fetch KyberRoutes, Fetch KyberBuild,
      WriteContract (JStr ''0xC0FFEE'') ''approve'' (JStr ''0x6131'') 1000,
      WaitForTransactionReceipt ''0xA11'', GetBalance ''0xF00D'',
      SendTransaction (JStr ''0x6131'') (JStr ''0xe21f'') 0,
      WaitForTransactionReceipt ''0x5E11'', GetBalance ''0xF00D''] \<and>
   reportsDelta lib_ex env_sell
     (JObj [(''success'', JBool True), (''transactionHash'', JStr ''0x5E11''),
             (''ethReceived'', JStr ''2000000000000000e-18'')])
     [ReadContract (JStr ''0xC0FFEE'') ''decimals'',
      ReadContract (JStr ''0xC0FFEE'') ''balanceOf'', Fetch KyberRoutes, Fetch KyberBuild,
      WriteContract (JStr ''0xC0FFEE'') ''approve'' (JStr ''0x6131'') 1000,
      WaitForTransactionReceipt ''0xA11'', GetBalance ''0xF00D'',
      SendTransaction (JStr ''0x6131'') (JStr ''0xe21f'') 0,
      WaitForTransactionReceipt ''0x5E11'', GetBalance ''0xF00D''] \<and>
   approve_r env_sell = Inr ''0xA11'' \<and> waitApprove_r env_sell = Inr () \<and>
   ethBefore_r env_sell = Inr 5000000000000000 \<and> ethAfter_r env_sell = Inr 7000000000000000"
proof -
  have h: "run (sellToken lib_ex env_sell (JStr ''gcm:00:11'') ''0xC0FFEE'' ''all'') =
     (Inr (JObj [(''success'', JBool True), (''transactionHash'', JStr ''0x5E11''),
             (''ethReceived'', JStr ''2000000000000000e-18'')]),
     [ReadContract (JStr ''0xC0FFEE'') ''decimals'',
      ReadContract (JStr ''0xC0FFEE'') ''balanceOf'', Fetch KyberRoutes, Fetch KyberBuild,
      WriteContract (JStr ''0xC0FFEE'') ''approve'' (JStr ''0x6131'') 1000,
      WaitForTransactionReceipt ''0xA11'', GetBalance ''0xF00D'',
      SendTransaction (JStr ''0x6131'') (JStr ''0xe21f'') 0,
      WaitForTransactionReceipt ''0x5E11'', GetBalance ''0xF00D''])"
    by code_simp
  have e: "approve_r env_sell = Inr ''0xA11''" "waitApprove_r env_sell = Inr ()"
    "ethBefore_r env_sell = Inr 5000000000000000" "ethAfter_r env_sell = Inr 7000000000000000"
    by (simp_all add: env_sell_def env_rejected_def)
  show ?thesis
    using sell_approval_precedes_swap
      [where L = lib_ex and env = env_sell and key = "JStr ''gcm:00:11''"
         and tokenAddress = "''0xC0FFEE''" and amt = "''all''" and req = req_sell_all] h e
    by simp
qed

lemma sell_steps_zero:
  "readDecimals_r env = Inr decimals \<Longrightarrow> readBalanceOf_r env = Inr currentBalance \<Longrightarrow>
   resolveAmountToSell L amountArg decimals currentBalance = Inr 0 \<Longrightarrow>
   sell_steps L env tkn amountArg address tr0 =
     (Inr (failure ''No tokens to sell''),
      tr0 @ [ReadContract tkn ''decimals'', ReadContract tkn ''balanceOf''])"
  by (simp add: sell_steps_def io_app)

text \<open>
  C8 (as amended). When the resolved amount of a sell is zero, the call returns the
  failure "No tokens to sell" without any quote or build request and without submitting
  a transaction. The short-circuit comes after the two contract reads that resolve the
  amount (\<^verbatim>\<open>decimals\<close> and \<^verbatim>\<open>balanceOf\<close>; in the handler, after the wallet lookup
  too), which are its only external calls.
\<close>

theorem sell_nothing_to_sell:
  "readDecimals_r env = Inr decimals \<Longrightarrow> readBalanceOf_r env = Inr currentBalance \<Longrightarrow>
   resolveAmountToSell L amountArg decimals currentBalance = Inr 0 \<Longrightarrow>
     (\<forall>key tokenAddress amt address.
        accountOfKey L key = Inr address \<and> amountArg = JStr amt \<longrightarrow>
        run (sellToken L env key tokenAddress amt) =
          (Inr (failure ''No tokens to sell''),
           [ReadContract (JStr tokenAddress) ''decimals'',
            ReadContract (JStr tokenAddress) ''balanceOf''])) \<and>
     (\<forall>req row address.
        sell_method req = ''POST'' \<and> truthy (sell_tokenAddress req) \<and>
        walletRow_r env = Inr row \<and> truthy (optProp row ''encrypted_private_key'') \<and>
        accountOfKey L (optProp row ''encrypted_private_key'') = Inr address \<and>
        sell_amount req = amountArg \<longrightarrow>
        run (sell_handler L env req) =
          (Inr \<lparr>reply_status = 200, payload = failure ''No tokens to sell''\<rparr>,
           [SqlSelectWallet (sell_sessionId req),
            ReadContract (sell_tokenAddress req) ''decimals'',
            ReadContract (sell_tokenAddress req) ''balanceOf'']))"
  by (auto simp: run_def sellToken_def sell_handler_def io_app sell_steps_zero)

theorem sell_nothing_to_sell_witness:
  "run (sellToken lib_ex env_rejected (JStr ''gcm:00:11'') ''0xC0FFEE'' ''all'') =
     (Inr (failure ''No tokens to sell''),
      [ReadContract (JStr ''0xC0FFEE'') ''decimals'',
       ReadContract (JStr ''0xC0FFEE'') ''balanceOf'']) \<and>
   run (sell_handler lib_ex (env_sell\<lparr>readBalanceOf_r := Inr 0\<rparr>) req_sell_all) =
     (Inr \<lparr>reply_status = 200, payload = failure ''No tokens to sell''\<rparr>,
      [SqlSelectWallet (JStr ''s1''), ReadContract (JStr ''0xC0FFEE'') ''decimals'',
       ReadContract (JStr ''0xC0FFEE'') ''balanceOf''])"
  using sell_nothing_to_sell [of env_rejected 18 0 lib_ex "JStr ''all''"]
    sell_nothing_to_sell [of "env_sell\<lparr>readBalanceOf_r := Inr 0\<rparr>" 18 0 lib_ex "JStr ''all''"]
  by (simp add: env_sell_def env_rejected_def lib_ex_def resolveAmountToSell_def
      req_sell_all_def)

text \<open>
  The claim as stated fails: a sell of "all" with an empty token balance has made two
  calls to the chain when it returns "No tokens to sell".
\<close>

theorem sell_reads_chain_before_nothing_to_sell:
  "snd (run (sellToken lib_ex env_rejected (JStr ''gcm:00:11'') ''0xC0FFEE'' ''all'')) =
     [ReadContract (JStr ''0xC0FFEE'') ''decimals'',
      ReadContract (JStr ''0xC0FFEE'') ''balanceOf''] \<and>
   fst (run (sellToken lib_ex env_rejected (JStr ''gcm:00:11'') ''0xC0FFEE'' ''all'')) =
     Inr (failure ''No tokens to sell'')"
  by code_simp

subsection \<open>Bracket orders of the exchange clients\<close>








end
